theory Spec2Isabelle
  imports Main
begin

section \<open>Errors and command outcomes\<close>

text \<open>
  Go \<^verbatim>\<open>error\<close> values. An error produced by a library or by the operating system
  (\<^verbatim>\<open>os.Lstat\<close>, \<^verbatim>\<open>cmd.Run\<close>, \<^verbatim>\<open>mimetype.DetectFile\<close>, the TOML decoder) is
  opaque and carried by its message; \<open>ErrNotExist\<close> is the one such error the driver tells
  apart (\<^verbatim>\<open>errors.Is(err, os.ErrNotExist)\<close>). The last two constructors are the errors
  with which cobra refuses a command line (flags of a mutually exclusive group given
  together, a required flag not given). Every other constructor is one \<^verbatim>\<open>errors.New\<close> or
  \<^verbatim>\<open>fmt.Errorf\<close> call of the source, with the values it formats.
\<close>

datatype error =
    ExternalError string
  | ErrNotExist string
  | RpmQlError string error
  | RpmQaError string error
  | RunFailed
  | RunFailedWithWarnings
  | UrlOrFileRequired
  | TopdirInnerpathRequired
  | UnknownKeys "string list"
  | CantParseConfig string error
  | ConfigBadEntries error
  | FlagGroupMutuallyExclusive "string list"
  | RequiredFlagNotSet string

text \<open>
  The outcome of running a child process to completion (\<^verbatim>\<open>cmd.Run()\<close>): a non-zero exit
  (or a failure to start) gives the captured stderr and the error; otherwise the captured
  stdout, as the lines that \<^verbatim>\<open>bufio.Scanner\<close> yields from it.
\<close>

datatype cmd_result =
    CmdFailed string error
  | CmdOk "string list"

section \<open>The node scan (package main)\<close>

subsection \<open>Data\<close>

text \<open>\<^verbatim>\<open>*v1.TagReference\<close>, of which the scan only sets \<^verbatim>\<open>From.Name\<close>.\<close>

datatype TagReference = TagReference (From_Name: string)

definition NewTag :: "string \<Rightarrow> TagReference" where
  "NewTag name = TagReference name"

text \<open>
  \<^verbatim>\<open>Config\<close> of package main, with the fields that \<^verbatim>\<open>(c *Config) Log()\<close> reads.
  Fields that share a name with a field of the driver's \<^verbatim>\<open>types.Config\<close> carry a
  prime. \<open>TimeLimit'\<close> is a \<^verbatim>\<open>time.Duration\<close>, in nanoseconds.
\<close>

record Config =
  Components :: "string list"
  Filter :: "string list"
  FromFile' :: string
  FromURL' :: string
  Limit' :: int
  NodeScan :: string
  OperatorImage :: string
  OutputFile' :: string
  OutputFormat' :: string
  Parallelism' :: int
  TimeLimit' :: int
  Verbose' :: bool

text \<open>
  \<^verbatim>\<open>ScanResult\<close> and \<^verbatim>\<open>ScanResults\<close>. Their declarations are not among the source files;
  the fields are the ones the node scan sets through the builder methods and reads
  (\<^verbatim>\<open>res.Error == nil\<close>). \<open>Tag\<close> is a pointer, nil until set.
\<close>

record ScanResult =
  Tag :: "TagReference option"
  Path :: string
  Error :: "error option"

record 'r ScanResults =
  Items :: "'r list"

text \<open>
  Modelled from the spec: \<^verbatim>\<open>NewScanResult\<close>, \<^verbatim>\<open>SetTag\<close>, \<^verbatim>\<open>SetPath\<close>, \<^verbatim>\<open>SetError\<close>,
  \<^verbatim>\<open>NewScanResults\<close> and \<^verbatim>\<open>Append\<close> are missing from the source files. The spec's data
  model gives a ScanResult a path, a tag and an error, and makes ScanResults an
  "ordered append-only collection of ScanResult": a fresh result has no field set, each
  setter stores its argument, a fresh collection is empty and \<open>Append\<close> adds at the end.
\<close>

definition NewScanResult :: ScanResult where
  "NewScanResult = \<lparr>Tag = None, Path = [], Error = None\<rparr>"

definition SetTag :: "ScanResult \<Rightarrow> TagReference \<Rightarrow> ScanResult" where
  "SetTag r tag = r\<lparr>Tag := Some tag\<rparr>"

definition SetPath :: "ScanResult \<Rightarrow> string \<Rightarrow> ScanResult" where
  "SetPath r path = r\<lparr>Path := path\<rparr>"

definition SetError :: "ScanResult \<Rightarrow> error \<Rightarrow> ScanResult" where
  "SetError r err = r\<lparr>Error := Some err\<rparr>"

definition NewScanResults :: "'r ScanResults" where
  "NewScanResults = \<lparr>Items = []\<rparr>"

definition Append :: "'r ScanResults \<Rightarrow> 'r \<Rightarrow> 'r ScanResults" where
  "Append results res = results\<lparr>Items := Items results @ [res]\<rparr>"

subsection \<open>The host the scan runs on\<close>

text \<open>
  Everything \<^verbatim>\<open>runNodeScan\<close> asks of its surroundings, as functions of the arguments of
  each call (the scan itself changes neither the file system nor the package database):
  \<^item> \<open>rpm_qa root\<close> and \<open>rpm_ql root pkg\<close>: the child processes
    \<^verbatim>\<open>rpm -qa --root root\<close> and \<^verbatim>\<open>rpm -ql --root root pkg\<close>;
  \<^item> \<open>Lstat path\<close>: \<^verbatim>\<open>os.Lstat\<close>, an error or whether the mode has \<^verbatim>\<open>os.ModeSymlink\<close>;
  \<^item> \<open>Stat path\<close>: \<^verbatim>\<open>os.Stat\<close>, an error or \<^verbatim>\<open>IsDir()\<close>;
  \<^item> \<open>DetectFile path\<close>: \<^verbatim>\<open>mimetype.DetectFile\<close>, an error or the MIME type's string;
  \<^item> \<open>EqualsAny\<close>: \<^verbatim>\<open>mimetype.EqualsAny\<close>; \<open>Join\<close>: \<^verbatim>\<open>filepath.Join\<close> of two elements;
  \<^item> \<open>ignoredMimes\<close>, \<open>isPathFiltered\<close> and \<open>scanBinary\<close>: the variable and the two
    functions of this package that the scan uses and that are missing from the source
    files; they are parameters of the model.
\<close>

record host =
  rpm_qa :: "string \<Rightarrow> cmd_result"
  rpm_ql :: "string \<Rightarrow> string \<Rightarrow> cmd_result"
  Lstat :: "string \<Rightarrow> error + bool"
  Stat :: "string \<Rightarrow> error + bool"
  DetectFile :: "string \<Rightarrow> error + string"
  EqualsAny :: "string \<Rightarrow> string list \<Rightarrow> bool"
  Join :: "string \<Rightarrow> string \<Rightarrow> string"
  ignoredMimes :: "string list"
  isPathFiltered :: "string list \<Rightarrow> string \<Rightarrow> bool"
  scanBinary :: "TagReference \<Rightarrow> string \<Rightarrow> string \<Rightarrow> ScanResult"

subsection \<open>The scan\<close>

definition isSymlink :: "host \<Rightarrow> string \<Rightarrow> error + bool" where
  "isSymlink h path =
     (case Lstat h path of
        Inl err \<Rightarrow> Inl err
      | Inr symlink \<Rightarrow> Inr symlink)"

text \<open>
  \<^verbatim>\<open>getFilesFromRPM\<close> and \<^verbatim>\<open>getAllRPMs\<close> return a pair, as in Go: the slice and the
  error (\<open>None\<close> for nil). The slice starts as \<^verbatim>\<open>[]string{}\<close> and is returned as it is
  when the command fails.
\<close>

definition getFilesFromRPM :: "host \<Rightarrow> 'a Config_scheme \<Rightarrow> string \<Rightarrow> string list \<times> error option" where
  "getFilesFromRPM h cfg rpm =
     (case rpm_ql h (NodeScan cfg) rpm of
        CmdFailed stderr err \<Rightarrow> ([], Some (RpmQlError stderr err))
      | CmdOk lines \<Rightarrow> ([] @ lines, None))"

definition getAllRPMs :: "host \<Rightarrow> 'a Config_scheme \<Rightarrow> string list \<times> error option" where
  "getAllRPMs h cfg =
     (case rpm_qa h (NodeScan cfg) of
        CmdFailed stderr err \<Rightarrow> ([], Some (RpmQaError stderr err))
      | CmdOk lines \<Rightarrow> ([] @ lines, None))"

text \<open>
  The body of the inner loop, for one \<open>path\<close> of the files of an RPM. Its state is the
  variable \<open>tag\<close>, declared in the outer loop's body and assigned in the inner one (so an
  assignment is seen by the following files of the same RPM), and \<open>results\<close>. Each
  \<^verbatim>\<open>continue\<close> returns the state as it stands.
\<close>

definition scanFile :: "host \<Rightarrow> 'a Config_scheme \<Rightarrow> string \<Rightarrow> TagReference \<times> ScanResult ScanResults \<Rightarrow> TagReference \<times> ScanResult ScanResults" where
  "scanFile h cfg path st =
     (case st of (tag, results) \<Rightarrow>
        if isPathFiltered h (Filter cfg) path then (tag, results)
        else
          (case isSymlink h path of
             Inl err \<Rightarrow>
               (tag, Append results (SetError (SetPath (SetTag NewScanResult tag) path) err))
           | Inr symlink \<Rightarrow>
               if symlink then (tag, results)
               else
                 (let path' = Join h (NodeScan cfg) path;
                      tag' = NewTag path'
                  in case Stat h path' of
                       Inl err \<Rightarrow> (tag', results)
                     | Inr isDir \<Rightarrow>
                         if isDir then (tag', results)
                         else
                           (case DetectFile h path' of
                              Inl err \<Rightarrow>
                                (tag', Append results
                                   (SetError (SetPath (SetTag NewScanResult tag') path') err))
                            | Inr mtype \<Rightarrow>
                                if EqualsAny h mtype (ignoredMimes h) then (tag', results)
                                else (tag', Append results
                                        (scanBinary h tag' (NodeScan cfg) path'))))))"

text \<open>The inner loop, \<^verbatim>\<open>for _, path := range files\<close>.\<close>

primrec scanFiles :: "host \<Rightarrow> 'a Config_scheme \<Rightarrow> string list \<Rightarrow> TagReference \<times> ScanResult ScanResults \<Rightarrow> TagReference \<times> ScanResult ScanResults" where
  "scanFiles h cfg [] st = st"
| "scanFiles h cfg (path # files) st = scanFiles h cfg files (scanFile h cfg path st)"

text \<open>The body of the outer loop, for one \<open>rpm\<close>.\<close>

definition scanRPM :: "host \<Rightarrow> 'a Config_scheme \<Rightarrow> string \<Rightarrow> ScanResult ScanResults \<Rightarrow> ScanResult ScanResults" where
  "scanRPM h cfg rpm results =
     (let tag = NewTag rpm
      in case getFilesFromRPM h cfg rpm of
           (files, Some err) \<Rightarrow> Append results (SetError (SetTag NewScanResult tag) err)
         | (files, None) \<Rightarrow> snd (scanFiles h cfg files (tag, results)))"

text \<open>The outer loop, \<^verbatim>\<open>for _, rpm := range rpms\<close>.\<close>

primrec scanRPMs :: "host \<Rightarrow> 'a Config_scheme \<Rightarrow> string list \<Rightarrow> ScanResult ScanResults \<Rightarrow> ScanResult ScanResults" where
  "scanRPMs h cfg [] results = results"
| "scanRPMs h cfg (rpm # rpms) results = scanRPMs h cfg rpms (scanRPM h cfg rpm results)"

text \<open>The four entries that \<^verbatim>\<open>runNodeScan\<close> appends to \<^verbatim>\<open>cfg.Filter\<close>.\<close>

definition nodeScanFilters :: "string list" where
  "nodeScanFilters = [''/lib/modules'', ''/usr/lib/firmware'', ''/usr/lib/grub'', ''/usr/lib/.build-id'']"

text \<open>
  \<^verbatim>\<open>runNodeScan\<close> takes the configuration by pointer and assigns to \<^verbatim>\<open>cfg.Filter\<close>: the
  model returns the configuration as the call leaves it, with the returned \<open>runs\<close>.
  \<open>runs\<close> holds the pointer \<open>results\<close>, so it sees every later \<open>Append\<close>; the error of
  \<^verbatim>\<open>getAllRPMs\<close> is dropped (\<^verbatim>\<open>rpms, _ :=\<close>).
\<close>

definition runNodeScan :: "host \<Rightarrow> 'a Config_scheme \<Rightarrow> 'a Config_scheme \<times> ScanResult ScanResults list" where
  "runNodeScan h cfg =
     (let cfg1 = cfg\<lparr>Filter := Filter cfg @ nodeScanFilters\<rparr>;
          rpms = fst (getAllRPMs h cfg1);
          results = scanRPMs h cfg1 rpms NewScanResults
      in (cfg1, [results]))"

section \<open>The driver (function main)\<close>

subsection \<open>Data\<close>

text \<open>
  Modelled from the spec: the declaration of \<^verbatim>\<open>types.ScanResult\<close> and its method
  \<^verbatim>\<open>IsSuccess\<close> are missing from the source files. The driver reads \<^verbatim>\<open>res.Skip\<close> and
  \<^verbatim>\<open>res.RPM\<close>; the spec's data model gives every ScanResult a status, one of success,
  warning, failure and skipped, which is the status left after exception matching. A result
  is a success when its status is success.
\<close>

datatype status = Success | Warning | Failure | Skipped

record types_ScanResult =
  Skip :: bool
  RPM :: string
  Status :: status

definition IsSuccess :: "types_ScanResult \<Rightarrow> bool" where
  "IsSuccess res = (Status res = Success)"

text \<open>
  \<^verbatim>\<open>types.Config\<close>, with the fields the driver assigns or reads. \<open>ConfigFile\<close> is the
  embedded struct that the TOML document is decoded into; its type, and the types of
  \<open>RPMIgnores\<close> and \<open>ErrIgnores\<close>, are not declared in the source files and stay type
  parameters. Go promotes the fields of an embedded struct, and the source files do not
  show which of the fields below \<open>ConfigFile\<close> declares: each is kept as a field of its
  own. \<open>TimeLimit\<close> is a \<^verbatim>\<open>time.Duration\<close>, in nanoseconds.
\<close>

record ('cf, 'ri, 'ei) types_Config =
  ConfigFile :: 'cf
  FailOnWarnings :: bool
  FilterFiles :: "string list"
  FilterDirs :: "string list"
  FilterImages :: "string list"
  Parallelism :: int
  InsecurePull :: bool
  OutputFile :: string
  OutputFormat :: string
  PrintExceptions :: bool
  PullSecret :: string
  Limit :: int
  TimeLimit :: int
  Verbose :: bool
  FromURL :: string
  FromFile :: string
  UseRPMScan :: bool
  ContainerImage :: string
  JavaDisabledAlgorithms :: "string list"
  Java :: bool
  FromTopDir :: string
  FromInnerPath :: string
  RPMIgnores :: 'ri
  ErrIgnores :: 'ei

text \<open>The variables of \<^verbatim>\<open>main\<close> that its command closures share.\<close>

record ('cf, 'ri, 'ei) driver =
  config :: "('cf, 'ri, 'ei) types_Config"
  results :: "types_ScanResult ScanResults list"

text \<open>
  \<^verbatim>\<open>var config types.Config\<close> and \<^verbatim>\<open>var results []*types.ScanResults\<close> start as zero
  values: every field of \<open>config\<close> is zero (the zero values of the three types left open
  are parameters) and \<open>results\<close> is the nil slice.
\<close>

definition main_vars :: "'cf \<Rightarrow> 'ri \<Rightarrow> 'ei \<Rightarrow> ('cf, 'ri, 'ei) driver" where
  "main_vars cf0 ri0 ei0 =
     \<lparr>config =
        \<lparr>ConfigFile = cf0, FailOnWarnings = False, FilterFiles = [], FilterDirs = [],
         FilterImages = [], Parallelism = 0, InsecurePull = False, OutputFile = [],
         OutputFormat = [], PrintExceptions = False, PullSecret = [], Limit = 0,
         TimeLimit = 0, Verbose = False, FromURL = [], FromFile = [], UseRPMScan = False,
         ContainerImage = [], JavaDisabledAlgorithms = [], Java = False, FromTopDir = [],
         FromInnerPath = [], RPMIgnores = ri0, ErrIgnores = ei0\<rparr>,
      results = []\<rparr>"

text \<open>
  A call either returns or panics. A panic in a command closure is not recovered: it ends
  the process.
\<close>

datatype 'a outcome = Returns 'a | Panics string

subsection \<open>Flags\<close>

text \<open>
  The package-level variables that the flags are bound to (lines 44 to 60), as they stand
  once the command line is parsed.
\<close>

record flags =
  components :: "string list"
  configFile :: string
  configForVersion :: string
  cpuProfile :: string
  failOnWarnings :: bool
  filterFiles :: "string list"
  filterDirs :: "string list"
  filterImages :: "string list"
  javaDisabledAlgorithms :: "string list"
  insecurePull :: bool
  limit :: int
  outputFile :: string
  outputFormat :: string
  parallelism :: int
  printExceptions :: bool
  pullSecretFile :: string
  timeLimit :: int
  verbose :: bool

text \<open>
  The flags of a command line, each \<open>None\<close> when the flag is absent and otherwise the value
  parsed from it: the persistent flags of \<^verbatim>\<open>rootCmd\<close> and \<^verbatim>\<open>scanCmd\<close>, and the
  \<^verbatim>\<open>--disabled-algorithms\<close> flag of \<^verbatim>\<open>java-image\<close>, which is bound to a variable too.
\<close>

record scan_args =
  arg_verbose :: "bool option"
  arg_config :: "string option"
  arg_config_for_version :: "string option"
  arg_filter_files :: "string list option"
  arg_filter_dirs :: "string list option"
  arg_filter_images :: "string list option"
  arg_components :: "string list option"
  arg_fail_on_warnings :: "bool option"
  arg_insecure_pull :: "bool option"
  arg_limit :: "int option"
  arg_parallelism :: "int option"
  arg_output_file :: "string option"
  arg_output_format :: "string option"
  arg_pull_secret :: "string option"
  arg_time_limit :: "int option"
  arg_cpuprofile :: "string option"
  arg_print_exceptions :: "bool option"
  arg_disabled_algorithms :: "string list option"

text \<open>
  A flag registered with \<^verbatim>\<open>XxxVar(&v, name, default, usage)\<close> leaves \<open>default\<close> in \<open>v\<close>
  unless the command line gives the flag.
\<close>

definition flagVar :: "'a \<Rightarrow> 'a option \<Rightarrow> 'a" where
  "flagVar dflt given = (case given of None \<Rightarrow> dflt | Some v \<Rightarrow> v)"

text \<open>\<^verbatim>\<open>time.Hour\<close>, in nanoseconds.\<close>

definition Hour :: int where
  "Hour = 3600000000000"

text \<open>The registrations of line 70, lines 141 to 156 and line 243, with their defaults.\<close>

definition parseFlags :: "scan_args \<Rightarrow> flags" where
  "parseFlags a =
     \<lparr>components = flagVar [] (arg_components a),
      configFile = flagVar [] (arg_config a),
      configForVersion = flagVar [] (arg_config_for_version a),
      cpuProfile = flagVar [] (arg_cpuprofile a),
      failOnWarnings = flagVar False (arg_fail_on_warnings a),
      filterFiles = flagVar [] (arg_filter_files a),
      filterDirs = flagVar [] (arg_filter_dirs a),
      filterImages = flagVar [] (arg_filter_images a),
      javaDisabledAlgorithms = flagVar [] (arg_disabled_algorithms a),
      insecurePull = flagVar False (arg_insecure_pull a),
      limit = flagVar (- 1) (arg_limit a),
      outputFile = flagVar [] (arg_output_file a),
      outputFormat = flagVar ''table'' (arg_output_format a),
      parallelism = flagVar 5 (arg_parallelism a),
      printExceptions = flagVar False (arg_print_exceptions a),
      pullSecretFile = flagVar [] (arg_pull_secret a),
      timeLimit = flagVar (1 * Hour) (arg_time_limit a),
      verbose = flagVar False (arg_verbose a)\<rparr>"

text \<open>
  The flags local to a subcommand are read with \<^verbatim>\<open>cmd.Flags().GetString\<close> and
  \<^verbatim>\<open>GetBool\<close>; all of them are registered with the default \<^verbatim>\<open>""\<close> or \<^verbatim>\<open>false\<close>.
\<close>

definition GetString :: "string option \<Rightarrow> string" where
  "GetString given = flagVar [] given"

definition GetBool :: "bool option \<Rightarrow> bool" where
  "GetBool given = flagVar False given"

record payload_args =
  arg_url :: "string option"
  arg_file :: "string option"
  arg_payload_rpm_scan :: "bool option"

record node_args =
  arg_root :: "string option"
  arg_walk_scan :: "bool option"

record image_args =
  arg_spec :: "string option"
  arg_image_rpm_scan :: "bool option"

record binary_args =
  arg_topdir :: "string option"
  arg_innerpath :: "string option"

subsection \<open>What the driver calls\<close>

text \<open>
  The functions of other packages that the driver calls, as parameters of the model. None
  of them is among the source files.
  \<^item> \<open>DecodeFile file v\<close> and \<open>Decode doc v\<close>: \<^verbatim>\<open>toml.DecodeFile\<close> and \<^verbatim>\<open>toml.Decode\<close>
    into the struct \<open>v\<close>: the struct as decoding leaves it, with the error, or else with
    the keys of the document left undecoded (\<^verbatim>\<open>res.Undecoded()\<close>).
  \<^item> \<open>embeddedConfig\<close>: the embedded \<^verbatim>\<open>config.toml\<close>; \<open>GetConfigFor\<close>:
    \<^verbatim>\<open>releases.GetConfigFor\<close>; \<open>emptyConfigFile\<close>: \<^verbatim>\<open>&types.ConfigFile{}\<close>.
  \<^item> \<open>Add c a\<close>: \<^verbatim>\<open>c.Add(a)\<close>, the struct \<open>c\<close> as the call leaves it and the warning.
  \<^item> \<open>Validate\<close>: \<^verbatim>\<open>config.Validate()\<close>, the error and the warning.
  \<^item> \<open>StartCPUProfile\<close>: \<^verbatim>\<open>os.Create\<close> followed by \<^verbatim>\<open>pprof.StartCPUProfile\<close>.
  \<^item> \<open>ValidateApplicationDependencies\<close>, \<open>IsFailed\<close>, \<open>IsWarnings\<close>, \<open>IgnoreFileByRpm\<close>,
    \<open>ScanBinary\<close>: the functions of these names.
  \<^item> \<open>RunPayloadScan\<close>, \<open>RunNodeScan\<close>, \<open>RunOperatorScan\<close>: the scans. Each takes the
    configuration by pointer: the model returns it as the scan leaves it, with the results.
  \<^verbatim>\<open>scan.PrintResults\<close> and the logging calls write output and return nothing; the
  model leaves them out.
\<close>

record ('cf, 'ri, 'ei) deps =
  DecodeFile :: "string \<Rightarrow> 'cf \<Rightarrow> 'cf \<times> (error + string list)"
  Decode :: "string \<Rightarrow> 'cf \<Rightarrow> 'cf \<times> (error + string list)"
  embeddedConfig :: string
  GetConfigFor :: "string \<Rightarrow> error + string"
  emptyConfigFile :: 'cf
  Add :: "'cf \<Rightarrow> 'cf \<Rightarrow> 'cf \<times> error option"
  Validate :: "('cf, 'ri, 'ei) types_Config \<Rightarrow> error option \<times> error option"
  StartCPUProfile :: "string \<Rightarrow> error option"
  ValidateApplicationDependencies :: "string list \<Rightarrow> error option"
  IsFailed :: "types_ScanResult ScanResults list \<Rightarrow> bool"
  IsWarnings :: "types_ScanResult ScanResults list \<Rightarrow> bool"
  IgnoreFileByRpm :: "('cf, 'ri, 'ei) types_Config \<Rightarrow> string \<Rightarrow> string \<Rightarrow> bool"
  ScanBinary :: "string \<Rightarrow> string \<Rightarrow> 'ri \<Rightarrow> 'ei \<Rightarrow> types_ScanResult"
  RunPayloadScan :: "('cf, 'ri, 'ei) types_Config \<Rightarrow> ('cf, 'ri, 'ei) types_Config \<times> types_ScanResult ScanResults list"
  RunNodeScan :: "('cf, 'ri, 'ei) types_Config \<Rightarrow> string \<Rightarrow> ('cf, 'ri, 'ei) types_Config \<times> types_ScanResult ScanResults list"
  RunOperatorScan :: "('cf, 'ri, 'ei) types_Config \<Rightarrow> ('cf, 'ri, 'ei) types_Config \<times> types_ScanResult ScanResults list"

text \<open>
  Modelled from the spec: \<^verbatim>\<open>scan.IsFailed\<close> and \<^verbatim>\<open>scan.IsWarnings\<close> are missing from the
  source files. The spec: "IsFailed is true iff any result has status=failure that survives
  exception matching. IsWarnings is true iff any warning survives."
\<close>

definition spec_IsFailed :: "types_ScanResult ScanResults list \<Rightarrow> bool" where
  "spec_IsFailed runs = list_ex (\<lambda>rs. list_ex (\<lambda>r. Status r = Failure) (Items rs)) runs"

definition spec_IsWarnings :: "types_ScanResult ScanResults list \<Rightarrow> bool" where
  "spec_IsWarnings runs = list_ex (\<lambda>rs. list_ex (\<lambda>r. Status r = Warning) (Items rs)) runs"

subsection \<open>Configuration loading\<close>

definition defaultConfigFile :: string where
  "defaultConfigFile = ''config.toml''"

definition applicationDeps :: "string list" where
  "applicationDeps = [''nm'', ''oc'', ''podman'']"

definition applicationDepsNodeScan :: "string list" where
  "applicationDepsNodeScan = [''nm'', ''rpm'']"

text \<open>\<^verbatim>\<open>errors.Is(err, os.ErrNotExist)\<close>.\<close>

fun Is_ErrNotExist :: "error \<Rightarrow> bool" where
  "Is_ErrNotExist (ErrNotExist m) = True"
| "Is_ErrNotExist err = False"

text \<open>
  The second half of \<^verbatim>\<open>getConfig\<close> (lines 336 to 356), \<^verbatim>\<open>--config-for-version\<close>. The
  result is the struct behind the pointer \<^verbatim>\<open>config\<close> as the call leaves it, and the error
  returned.
\<close>

definition getConfigForVersion :: "('cf, 'ri, 'ei, 'z) deps_scheme \<Rightarrow> flags \<Rightarrow> 'cf \<Rightarrow> ('cf \<times> error option) outcome" where
  "getConfigForVersion d fl conf =
     (if configForVersion fl \<noteq> [] then
        (case GetConfigFor d (configForVersion fl) of
           Inl err \<Rightarrow> Returns (conf, Some err)
         | Inr cfg \<Rightarrow>
             (case Decode d cfg (emptyConfigFile d) of
                (addConfig, Inl err) \<Rightarrow> Panics ''invalid embedded config''
              | (addConfig, Inr un) \<Rightarrow>
                  if length un \<noteq> 0 then Panics ''unknown keys in config''
                  else Returns (fst (Add d conf addConfig), None)))
      else Returns (conf, None))"

definition getConfig :: "('cf, 'ri, 'ei, 'z) deps_scheme \<Rightarrow> flags \<Rightarrow> 'cf \<Rightarrow> ('cf \<times> error option) outcome" where
  "getConfig d fl conf =
     (let file = (if configFile fl = [] then defaultConfigFile else configFile fl)
      in case DecodeFile d file conf of
           (conf1, Inr un) \<Rightarrow>
             if length un \<noteq> 0 then Returns (conf1, Some (UnknownKeys un))
             else getConfigForVersion d fl conf1
         | (conf1, Inl err) \<Rightarrow>
             if Is_ErrNotExist err \<and> configFile fl = [] then
               (case Decode d (embeddedConfig d) conf1 of
                  (conf2, Inl err2) \<Rightarrow> Panics ''invalid embedded config''
                | (conf2, Inr un) \<Rightarrow>
                    if length un \<noteq> 0 then Panics ''unknown keys in config''
                    else getConfigForVersion d fl conf2)
             else Returns (conf1, Some (CantParseConfig file err)))"

subsection \<open>The hooks of the scan command\<close>

text \<open>
  Each closure returns its error (\<open>None\<close> for nil) and the shared variables as it leaves
  them.
\<close>

definition PersistentPreRunE :: "('cf, 'ri, 'ei, 'z) deps_scheme \<Rightarrow> flags \<Rightarrow> ('cf, 'ri, 'ei) driver \<Rightarrow> (error option \<times> ('cf, 'ri, 'ei) driver) outcome" where
  "PersistentPreRunE d fl st =
     (case getConfig d fl (ConfigFile (config st)) of
        Panics msg \<Rightarrow> Panics msg
      | Returns (cf, Some err) \<Rightarrow> Returns (Some err, st\<lparr>config := (config st)\<lparr>ConfigFile := cf\<rparr>\<rparr>)
      | Returns (cf, None) \<Rightarrow>
          (let c = (config st)\<lparr>ConfigFile := cf\<rparr>;
               c1 = c\<lparr>FailOnWarnings := failOnWarnings fl,
                      FilterFiles := FilterFiles c @ filterFiles fl,
                      FilterDirs := FilterDirs c @ filterDirs fl,
                      FilterImages := FilterImages c @ filterImages fl,
                      Parallelism := parallelism fl,
                      InsecurePull := insecurePull fl,
                      OutputFile := outputFile fl,
                      OutputFormat := outputFormat fl,
                      PrintExceptions := printExceptions fl,
                      PullSecret := pullSecretFile fl,
                      Limit := limit fl,
                      TimeLimit := timeLimit fl,
                      Verbose := verbose fl\<rparr>;
               st1 = st\<lparr>config := c1\<rparr>
           in case Validate d c1 of
                (Some err, warn) \<Rightarrow> Returns (Some (ConfigBadEntries err), st1)
              | (None, warn) \<Rightarrow>
                  if cpuProfile fl \<noteq> [] then
                    (case StartCPUProfile d (cpuProfile fl) of
                       Some err \<Rightarrow> Returns (Some err, st1)
                     | None \<Rightarrow> Returns (None, st1))
                  else Returns (None, st1)))"

definition PersistentPostRunE :: "('cf, 'ri, 'ei, 'z) deps_scheme \<Rightarrow> ('cf, 'ri, 'ei) driver \<Rightarrow> error option" where
  "PersistentPostRunE d st =
     (if IsFailed d (results st) then Some RunFailed
      else if IsWarnings d (results st) \<and> FailOnWarnings (config st) then Some RunFailedWithWarnings
      else None)"

subsection \<open>The subcommands\<close>

definition scanPayload_RunE :: "('cf, 'ri, 'ei, 'z) deps_scheme \<Rightarrow> flags \<Rightarrow> payload_args \<Rightarrow> ('cf, 'ri, 'ei) driver \<Rightarrow> (error option \<times> ('cf, 'ri, 'ei) driver) outcome" where
  "scanPayload_RunE d fl a st =
     (let c1 = (config st)\<lparr>FromURL := GetString (arg_url a), FromFile := GetString (arg_file a)\<rparr>
      in if FromURL c1 = [] \<and> FromFile c1 = [] then Returns (Some UrlOrFileRequired, st\<lparr>config := c1\<rparr>)
         else
           (let c2 = c1\<lparr>PrintExceptions := printExceptions fl,
                         UseRPMScan := GetBool (arg_payload_rpm_scan a)\<rparr>
            in case RunPayloadScan d c2 of
                 (c3, runs) \<Rightarrow> Returns (None, st\<lparr>config := c3, results := runs\<rparr>)))"

definition scanNode_RunE :: "('cf, 'ri, 'ei, 'z) deps_scheme \<Rightarrow> node_args \<Rightarrow> ('cf, 'ri, 'ei) driver \<Rightarrow> (error option \<times> ('cf, 'ri, 'ei) driver) outcome" where
  "scanNode_RunE d a st =
     (let c1 = (config st)\<lparr>UseRPMScan := \<not> GetBool (arg_walk_scan a)\<rparr>
      in case RunNodeScan d c1 (GetString (arg_root a)) of
           (c2, runs) \<Rightarrow> Returns (None, st\<lparr>config := c2, results := runs\<rparr>))"

definition scanImage_RunE :: "('cf, 'ri, 'ei, 'z) deps_scheme \<Rightarrow> image_args \<Rightarrow> ('cf, 'ri, 'ei) driver \<Rightarrow> (error option \<times> ('cf, 'ri, 'ei) driver) outcome" where
  "scanImage_RunE d a st =
     (let c1 = (config st)\<lparr>ContainerImage := GetString (arg_spec a),
                            UseRPMScan := GetBool (arg_image_rpm_scan a)\<rparr>
      in case RunOperatorScan d c1 of
           (c2, runs) \<Rightarrow> Returns (None, st\<lparr>config := c2, results := runs\<rparr>))"

definition scanJavaImage_RunE :: "('cf, 'ri, 'ei, 'z) deps_scheme \<Rightarrow> flags \<Rightarrow> image_args \<Rightarrow> ('cf, 'ri, 'ei) driver \<Rightarrow> (error option \<times> ('cf, 'ri, 'ei) driver) outcome" where
  "scanJavaImage_RunE d fl a st =
     (let c = config st;
          c1 = c\<lparr>ContainerImage := GetString (arg_spec a),
                 UseRPMScan := GetBool (arg_image_rpm_scan a),
                 JavaDisabledAlgorithms := JavaDisabledAlgorithms c @ javaDisabledAlgorithms fl,
                 Java := True\<rparr>
      in case RunOperatorScan d c1 of
           (c2, runs) \<Rightarrow> Returns (None, st\<lparr>config := c2, results := runs\<rparr>))"

text \<open>
  \<^verbatim>\<open>results[0] = newResults\<close> is an index assignment: Go panics when the index is not
  below the length of the slice.
\<close>

definition gosyms_RunE :: "('cf, 'ri, 'ei, 'z) deps_scheme \<Rightarrow> binary_args \<Rightarrow> ('cf, 'ri, 'ei) driver \<Rightarrow> (error option \<times> ('cf, 'ri, 'ei) driver) outcome" where
  "gosyms_RunE d a st =
     (let c1 = (config st)\<lparr>FromTopDir := GetString (arg_topdir a),
                            FromInnerPath := GetString (arg_innerpath a),
                            UseRPMScan := False\<rparr>;
          st1 = st\<lparr>config := c1\<rparr>
      in if FromTopDir c1 = [] \<or> FromInnerPath c1 = [] then Returns (Some TopdirInnerpathRequired, st1)
         else
           (let res = ScanBinary d (FromTopDir c1) (FromInnerPath c1) (RPMIgnores c1) (ErrIgnores c1)
            in if Skip res then Returns (None, st1)
               else if \<not> IsSuccess res \<and> RPM res \<noteq> [] \<and> IgnoreFileByRpm d c1 (FromInnerPath c1) (RPM res)
                 then Returns (None, st1)
               else
                 (let newResults = Append NewScanResults res
                  in if 0 < length (results st1)
                     then Returns (None, st1\<lparr>results := (results st1)[0 := newResults]\<rparr>)
                     else Panics ''index out of range [0] with length 0'')))"

subsection \<open>Running a subcommand\<close>

text \<open>
  cobra runs the hooks of a subcommand of \<^verbatim>\<open>scan\<close> in this order and stops at the first
  error: the \<^verbatim>\<open>PersistentPreRunE\<close> of \<^verbatim>\<open>scanCmd\<close>, the subcommand's \<^verbatim>\<open>PreRunE\<close>, the
  check of the required flags and of the flag groups, the subcommand's \<^verbatim>\<open>RunE\<close>, the
  \<^verbatim>\<open>PersistentPostRunE\<close> of \<^verbatim>\<open>scanCmd\<close>.
\<close>

definition execute :: "('cf, 'ri, 'ei, 'z) deps_scheme \<Rightarrow> flags \<Rightarrow> error option \<Rightarrow> error option \<Rightarrow> (('cf, 'ri, 'ei) driver \<Rightarrow> (error option \<times> ('cf, 'ri, 'ei) driver) outcome) \<Rightarrow> ('cf, 'ri, 'ei) driver \<Rightarrow> (error option \<times> ('cf, 'ri, 'ei) driver) outcome" where
  "execute d fl preRunE flagCheck runE st =
     (case PersistentPreRunE d fl st of
        Panics msg \<Rightarrow> Panics msg
      | Returns (Some err, st1) \<Rightarrow> Returns (Some err, st1)
      | Returns (None, st1) \<Rightarrow>
          (case preRunE of
             Some err \<Rightarrow> Returns (Some err, st1)
           | None \<Rightarrow>
               (case flagCheck of
                  Some err \<Rightarrow> Returns (Some err, st1)
                | None \<Rightarrow>
                    (case runE st1 of
                       Panics msg \<Rightarrow> Panics msg
                     | Returns (Some err, st2) \<Rightarrow> Returns (Some err, st2)
                     | Returns (None, st2) \<Rightarrow> Returns (PersistentPostRunE d st2, st2)))))"

text \<open>
  \<^verbatim>\<open>MarkFlagsMutuallyExclusive("url", "file")\<close>: the command is refused when both flags
  are given. \<^verbatim>\<open>MarkFlagRequired\<close>: the command is refused when the flag is not given.
\<close>

definition mutuallyExclusive :: "string \<Rightarrow> 'a option \<Rightarrow> string \<Rightarrow> 'b option \<Rightarrow> error option" where
  "mutuallyExclusive n1 f1 n2 f2 =
     (if f1 \<noteq> None \<and> f2 \<noteq> None then Some (FlagGroupMutuallyExclusive [n1, n2]) else None)"

definition required :: "string \<Rightarrow> 'a option \<Rightarrow> error option" where
  "required n f = (if f = None then Some (RequiredFlagNotSet n) else None)"

definition scan_payload :: "('cf, 'ri, 'ei, 'z) deps_scheme \<Rightarrow> scan_args \<Rightarrow> payload_args \<Rightarrow> ('cf, 'ri, 'ei) driver \<Rightarrow> (error option \<times> ('cf, 'ri, 'ei) driver) outcome" where
  "scan_payload d sa a st =
     execute d (parseFlags sa)
       (ValidateApplicationDependencies d applicationDeps)
       (mutuallyExclusive ''url'' (arg_url a) ''file'' (arg_file a))
       (scanPayload_RunE d (parseFlags sa) a) st"

definition scan_node :: "('cf, 'ri, 'ei, 'z) deps_scheme \<Rightarrow> scan_args \<Rightarrow> node_args \<Rightarrow> ('cf, 'ri, 'ei) driver \<Rightarrow> (error option \<times> ('cf, 'ri, 'ei) driver) outcome" where
  "scan_node d sa a st =
     execute d (parseFlags sa)
       (ValidateApplicationDependencies d applicationDepsNodeScan)
       (required ''root'' (arg_root a))
       (scanNode_RunE d a) st"

definition scan_image :: "('cf, 'ri, 'ei, 'z) deps_scheme \<Rightarrow> scan_args \<Rightarrow> image_args \<Rightarrow> ('cf, 'ri, 'ei) driver \<Rightarrow> (error option \<times> ('cf, 'ri, 'ei) driver) outcome" where
  "scan_image d sa a st =
     execute d (parseFlags sa)
       (ValidateApplicationDependencies d applicationDeps)
       (required ''spec'' (arg_spec a))
       (scanImage_RunE d a) st"

definition scan_java_image :: "('cf, 'ri, 'ei, 'z) deps_scheme \<Rightarrow> scan_args \<Rightarrow> image_args \<Rightarrow> ('cf, 'ri, 'ei) driver \<Rightarrow> (error option \<times> ('cf, 'ri, 'ei) driver) outcome" where
  "scan_java_image d sa a st =
     execute d (parseFlags sa)
       (ValidateApplicationDependencies d applicationDeps)
       (required ''spec'' (arg_spec a))
       (scanJavaImage_RunE d (parseFlags sa) a) st"

definition scan_binary :: "('cf, 'ri, 'ei, 'z) deps_scheme \<Rightarrow> scan_args \<Rightarrow> binary_args \<Rightarrow> ('cf, 'ri, 'ei) driver \<Rightarrow> (error option \<times> ('cf, 'ri, 'ei) driver) outcome" where
  "scan_binary d sa a st =
     execute d (parseFlags sa)
       (ValidateApplicationDependencies d applicationDeps)
       None
       (gosyms_RunE d a) st"

section \<open>Notions used in the statements\<close>


text \<open>
  The paths for which the node scan records a result: not filtered, and either
  \<^verbatim>\<open>os.Lstat\<close> fails, or the path is no symlink, \<^verbatim>\<open>os.Stat\<close> of the path under the root
  succeeds, it is no directory, and MIME detection either fails or gives a type that is
  not ignored.
\<close>

definition yieldsResult :: "host \<Rightarrow> 'a Config_scheme \<Rightarrow> string \<Rightarrow> bool" where
  "yieldsResult h cfg path =
     (\<not> isPathFiltered h (Filter cfg) path \<and>
      (case Lstat h path of
         Inl err \<Rightarrow> True
       | Inr symlink \<Rightarrow>
           \<not> symlink \<and>
           (case Stat h (Join h (NodeScan cfg) path) of
              Inl err \<Rightarrow> False
            | Inr isDir \<Rightarrow>
                \<not> isDir \<and>
                (case DetectFile h (Join h (NodeScan cfg) path) of
                   Inl err \<Rightarrow> True
                 | Inr mtype \<Rightarrow> \<not> EqualsAny h mtype (ignoredMimes h)))))"

text \<open>
  What the node scan records for one listing of \<open>path\<close>, when it records something
  (\<open>yieldsResult\<close>), with \<open>tag\<close> the value of the variable \<open>tag\<close> at that point: the
  error of \<^verbatim>\<open>os.Lstat\<close> with the path as listed; otherwise, for the path under the root,
  the error of MIME detection, or else what \<^verbatim>\<open>scanBinary\<close> returns.
\<close>

definition resultFor :: "host \<Rightarrow> 'a Config_scheme \<Rightarrow> TagReference \<Rightarrow> string \<Rightarrow> ScanResult" where
  "resultFor h cfg tag path =
     (case Lstat h path of
        Inl err \<Rightarrow> \<lparr>Tag = Some tag, Path = path, Error = Some err\<rparr>
      | Inr symlink \<Rightarrow>
          (case DetectFile h (Join h (NodeScan cfg) path) of
             Inl err \<Rightarrow>
               \<lparr>Tag = Some (NewTag (Join h (NodeScan cfg) path)),
                Path = Join h (NodeScan cfg) path, Error = Some err\<rparr>
           | Inr mtype \<Rightarrow>
               scanBinary h (NewTag (Join h (NodeScan cfg) path)) (NodeScan cfg)
                 (Join h (NodeScan cfg) path)))"

text \<open>The variable \<open>tag\<close> after one listing of \<open>path\<close>.\<close>

definition tagAfter :: "host \<Rightarrow> 'a Config_scheme \<Rightarrow> TagReference \<Rightarrow> string \<Rightarrow> TagReference" where
  "tagAfter h cfg tag path =
     (if isPathFiltered h (Filter cfg) path then tag
      else case Lstat h path of
             Inl err \<Rightarrow> tag
           | Inr symlink \<Rightarrow> if symlink then tag else NewTag (Join h (NodeScan cfg) path))"

text \<open>
  The results of the listings \<open>files\<close> of one package, in the order of the listing: one
  for each listing that yields a result, a path listed twice being taken twice.
\<close>

primrec listingResults :: "host \<Rightarrow> 'a Config_scheme \<Rightarrow> TagReference \<Rightarrow> string list \<Rightarrow> ScanResult list" where
  "listingResults h cfg tag [] = []"
| "listingResults h cfg tag (path # files) =
     (if yieldsResult h cfg path then [resultFor h cfg tag path] else [])
       @ listingResults h cfg (tagAfter h cfg tag path) files"

text \<open>
  The results of one package: the error of \<^verbatim>\<open>rpm -ql\<close> under the package's tag, or the
  results of its listings.
\<close>

definition rpmResults :: "host \<Rightarrow> 'a Config_scheme \<Rightarrow> string \<Rightarrow> ScanResult list" where
  "rpmResults h cfg rpm =
     (case getFilesFromRPM h cfg rpm of
        (files, Some err) \<Rightarrow> [\<lparr>Tag = Some (NewTag rpm), Path = [], Error = Some err\<rparr>]
      | (files, None) \<Rightarrow> listingResults h cfg (NewTag rpm) files)"

text \<open>\<open>path\<close> is the directory \<open>dir\<close> or lies below it.\<close>

definition pathUnder :: "string \<Rightarrow> string \<Rightarrow> bool" where
  "pathUnder dir path = (path = dir \<or> take (length dir + 1) path = dir @ ''/'')"

text \<open>
  The host \<open>h\<close> with every path that the filter \<open>flt\<close> matches removed from the file list
  of every package.
\<close>

definition dropFiltered :: "host \<Rightarrow> string list \<Rightarrow> host" where
  "dropFiltered h flt =
     h\<lparr>rpm_ql := (\<lambda>root rpm.
          case rpm_ql h root rpm of
            CmdFailed stderr err \<Rightarrow> CmdFailed stderr err
          | CmdOk lines \<Rightarrow> CmdOk (filter (\<lambda>path. \<not> isPathFiltered h flt path) lines))\<rparr>"

section \<open>Example inputs\<close>

text \<open>
  A small host, for evaluating the node scan at concrete inputs. Three packages are
  installed under the root \<open>/mnt\<close>; the file list of \<open>broken\<close> cannot be read, and
  \<open>/usr/bin/bash\<close> is listed by two packages. The
  path filter matches by prefix, MIME types are compared literally, and \<open>scanBinary\<close>
  reports a success for every file.
\<close>

definition ex_host :: host where
  "ex_host =
     \<lparr>rpm_qa = (\<lambda>root. CmdOk [''bash'', ''broken'', ''kernel'']),
      rpm_ql = (\<lambda>root rpm.
         if rpm = ''bash'' then
           CmdOk [''/usr/bin/bash'', ''/bin/sh'', ''/usr/share/doc'', ''/etc/gone'',
                  ''/usr/share/README'', ''/proc/locked'', ''/opt/skip/tool'', ''/usr/bin/odd'']
         else if rpm = ''kernel'' then
           CmdOk [''/lib/modules/6.1/ext4.ko'', ''/boot/vmlinuz'', ''/usr/bin/bash'']
         else CmdFailed ''package is not installed'' (ExternalError ''exit status 1'')),
      Lstat = (\<lambda>path.
         if path = ''/proc/locked'' then Inl (ExternalError ''permission denied'')
         else Inr (path = ''/bin/sh'')),
      Stat = (\<lambda>path.
         if path = ''/mnt/etc/gone'' then Inl (ErrNotExist ''no such file or directory'')
         else Inr (path = ''/mnt/usr/share/doc'')),
      DetectFile = (\<lambda>path.
         if path = ''/mnt/usr/bin/odd'' then Inl (ExternalError ''read error'')
         else if path = ''/mnt/usr/share/README'' then Inr ''text/plain''
         else Inr ''application/x-executable''),
      EqualsAny = (\<lambda>s mimes. List.member mimes s),
      Join = (\<lambda>dir path. dir @ path),
      ignoredMimes = [''text/plain''],
      isPathFiltered = (\<lambda>flt path. list_ex (\<lambda>f. take (length f) path = f) flt),
      scanBinary = (\<lambda>tag topDir path. SetPath (SetTag NewScanResult tag) path)\<rparr>"

definition ex_cfg :: Config where
  "ex_cfg =
     \<lparr>Components = [], Filter = [''/opt/skip''], FromFile' = [], FromURL' = [], Limit' = - 1,
      NodeScan = ''/mnt'', OperatorImage = [], OutputFile' = [], OutputFormat' = ''table'',
      Parallelism' = 5, TimeLimit' = 3600000000000, Verbose' = False\<rparr>"

text \<open>The same host with a package database that cannot be read.\<close>

definition ex_host_no_db :: host where
  "ex_host_no_db =
     ex_host\<lparr>rpm_qa := (\<lambda>root. CmdFailed ''cannot open Packages database'' (ExternalError ''exit status 1''))\<rparr>"

text \<open>
  Example surroundings of the driver. \<open>config.toml\<close> decodes cleanly, \<open>typo.toml\<close> has
  the unknown key \<open>fliter_dirs\<close>, no other file exists; every dependency is installed and
  the configuration is valid. The decoded document is modelled by the list of its keys. The
  payload scan reports one warning, the node scan a success and a skipped file, the image
  scan a failure. \<open>IsFailed\<close> and \<open>IsWarnings\<close> are the ones of the spec.
\<close>

definition ex_deps :: "(string list, unit, unit) deps" where
  "ex_deps =
     \<lparr>DecodeFile = (\<lambda>file v.
         if file = ''config.toml'' then (v, Inr [])
         else if file = ''typo.toml'' then (v @ [''filter_files''], Inr [''fliter_dirs''])
         else (v, Inl (ErrNotExist ''no such file or directory''))),
      Decode = (\<lambda>doc v. (v, Inr [])),
      embeddedConfig = [],
      GetConfigFor = (\<lambda>version. Inl (ExternalError ''no embedded config for this version'')),
      emptyConfigFile = [],
      Add = (\<lambda>c a. (c @ a, None)),
      Validate = (\<lambda>c. (None, None)),
      StartCPUProfile = (\<lambda>file. None),
      ValidateApplicationDependencies = (\<lambda>deps. None),
      IsFailed = spec_IsFailed,
      IsWarnings = spec_IsWarnings,
      IgnoreFileByRpm = (\<lambda>c path rpm. False),
      ScanBinary = (\<lambda>topDir innerPath ri ei. \<lparr>Skip = False, RPM = [], Status = Success\<rparr>),
      RunPayloadScan = (\<lambda>c. (c, [\<lparr>Items = [\<lparr>Skip = False, RPM = ''openssl'', Status = Warning\<rparr>]\<rparr>])),
      RunNodeScan = (\<lambda>c root. (c, [\<lparr>Items = [\<lparr>Skip = False, RPM = ''bash'', Status = Success\<rparr>,
                                              \<lparr>Skip = True, RPM = [], Status = Skipped\<rparr>]\<rparr>])),
      RunOperatorScan = (\<lambda>c. (c, [\<lparr>Items = [\<lparr>Skip = False, RPM = [], Status = Failure\<rparr>]\<rparr>]))\<rparr>"

text \<open>A command line without any flag of \<^verbatim>\<open>scan\<close>.\<close>

definition no_args :: scan_args where
  "no_args =
     \<lparr>arg_verbose = None, arg_config = None, arg_config_for_version = None,
      arg_filter_files = None, arg_filter_dirs = None, arg_filter_images = None,
      arg_components = None, arg_fail_on_warnings = None, arg_insecure_pull = None,
      arg_limit = None, arg_parallelism = None, arg_output_file = None,
      arg_output_format = None, arg_pull_secret = None, arg_time_limit = None,
      arg_cpuprofile = None, arg_print_exceptions = None, arg_disabled_algorithms = None\<rparr>"

text \<open>
  The variables of \<^verbatim>\<open>main\<close> after \<^verbatim>\<open>PersistentPreRunE\<close> on that command line, after a
  node scan and after a payload scan.
\<close>

definition ex_pre :: "(string list, unit, unit) driver" where
  "ex_pre =
     (main_vars [] () ())
       \<lparr>config := (config (main_vars [] () ()))
          \<lparr>Parallelism := 5, OutputFormat := ''table'', Limit := - 1, TimeLimit := 3600000000000\<rparr>\<rparr>"

definition ex_node_args :: node_args where
  "ex_node_args = \<lparr>arg_root = Some ''/mnt'', arg_walk_scan = None\<rparr>"

definition ex_node_done :: "(string list, unit, unit) driver" where
  "ex_node_done =
     ex_pre\<lparr>config := (config ex_pre)\<lparr>UseRPMScan := True\<rparr>,
            results := [\<lparr>Items = [\<lparr>Skip = False, RPM = ''bash'', Status = Success\<rparr>,
                                  \<lparr>Skip = True, RPM = [], Status = Skipped\<rparr>]\<rparr>]\<rparr>"

definition ex_payload_done :: "(string list, unit, unit) driver" where
  "ex_payload_done =
     ex_pre\<lparr>config := (config ex_pre)\<lparr>FromURL := ''quay.io/release:4.14''\<rparr>,
            results := [\<lparr>Items = [\<lparr>Skip = False, RPM = ''openssl'', Status = Warning\<rparr>]\<rparr>]\<rparr>"

text \<open>The flags of \<^verbatim>\<open>payload\<close> and \<^verbatim>\<open>binary\<close> on four command lines.\<close>

definition ex_both :: payload_args where
  "ex_both = \<lparr>arg_url = Some ''quay.io/release:4.14'', arg_file = Some ''payload.json'',
              arg_payload_rpm_scan = None\<rparr>"

definition ex_neither :: payload_args where
  "ex_neither = \<lparr>arg_url = None, arg_file = None, arg_payload_rpm_scan = None\<rparr>"

definition ex_url :: payload_args where
  "ex_url = \<lparr>arg_url = Some ''quay.io/release:4.14'', arg_file = None, arg_payload_rpm_scan = None\<rparr>"

definition ex_binary_args :: binary_args where
  "ex_binary_args = \<lparr>arg_topdir = Some ''/mnt'', arg_innerpath = Some ''/usr/bin/ls''\<rparr>"

section \<open>Properties of the node scan\<close>

subsection \<open>Auxiliary facts\<close>

lemma Items_Append: "Items (Append rs r) = Items rs @ [r]"
  by (simp add: Append_def)

lemma fst_runNodeScan: "fst (runNodeScan h cfg) = cfg\<lparr>Filter := Filter cfg @ nodeScanFilters\<rparr>"
  by (simp add: runNodeScan_def Let_def)

lemma snd_runNodeScan:
  "snd (runNodeScan h cfg)
     = [scanRPMs h (fst (runNodeScan h cfg)) (fst (getAllRPMs h (fst (runNodeScan h cfg)))) NewScanResults]"
  by (simp add: runNodeScan_def Let_def)

lemma scanRPMs_append:
  "scanRPMs h cfg (xs @ ys) rs = scanRPMs h cfg ys (scanRPMs h cfg xs rs)"
  by (induction xs arbitrary: rs) simp_all

text \<open>The loops, as the lists of results they build.\<close>

lemma scanFile_eq:
  "scanFile h cfg path (tag, rs)
     = (tagAfter h cfg tag path,
        \<lparr>Items = Items rs @ (if yieldsResult h cfg path then [resultFor h cfg tag path] else [])\<rparr>)"
  by (simp add: scanFile_def yieldsResult_def resultFor_def tagAfter_def isSymlink_def Append_def
        SetError_def SetPath_def SetTag_def NewScanResult_def Let_def
        split: sum.splits)

lemma scanFiles_eq:
  "snd (scanFiles h cfg files (tag, rs)) = \<lparr>Items = Items rs @ listingResults h cfg tag files\<rparr>"
  by (induction files arbitrary: tag rs) (simp_all add: scanFile_eq)

lemma scanRPM_eq:
  "scanRPM h cfg rpm rs = \<lparr>Items = Items rs @ rpmResults h cfg rpm\<rparr>"
  by (simp add: scanRPM_def rpmResults_def scanFiles_eq Append_def SetError_def SetTag_def
        NewScanResult_def split: prod.splits option.splits)

lemma scanRPMs_eq:
  "scanRPMs h cfg rpms rs = \<lparr>Items = Items rs @ concat (map (rpmResults h cfg) rpms)\<rparr>"
  by (induction rpms arbitrary: rs) (simp_all add: scanRPM_eq)






text \<open>A filtered path leaves the state of the inner loop as it is.\<close>

lemma scanFile_filtered:
  "isPathFiltered h (Filter cfg) path \<Longrightarrow> scanFile h cfg path st = st"
  by (cases st) (simp add: scanFile_def)

lemma scanFiles_filter:
  "scanFiles h cfg (filter (\<lambda>path. \<not> isPathFiltered h (Filter cfg) path) files) st
     = scanFiles h cfg files st"
  by (induction files arbitrary: st) (simp_all add: scanFile_filtered)

lemma scanFile_dropFiltered: "scanFile (dropFiltered h flt) cfg path st = scanFile h cfg path st"
  by (cases st)
     (simp add: scanFile_def dropFiltered_def isSymlink_def Let_def cong: if_cong sum.case_cong)

lemma scanFiles_dropFiltered: "scanFiles (dropFiltered h flt) cfg files st = scanFiles h cfg files st"
  by (induction files arbitrary: st) (simp_all add: scanFile_dropFiltered)

lemma scanRPM_dropFiltered:
  "scanRPM (dropFiltered h (Filter cfg)) cfg rpm rs = scanRPM h cfg rpm rs"
proof (cases "rpm_ql h (NodeScan cfg) rpm")
  case (CmdFailed stderr err)
  then show ?thesis
    by (simp add: scanRPM_def getFilesFromRPM_def dropFiltered_def)
next
  case (CmdOk lines)
  have "scanRPM (dropFiltered h (Filter cfg)) cfg rpm rs
          = snd (scanFiles (dropFiltered h (Filter cfg)) cfg
                   (filter (\<lambda>path. \<not> isPathFiltered h (Filter cfg) path) lines) (NewTag rpm, rs))"
    using CmdOk by (simp add: scanRPM_def getFilesFromRPM_def dropFiltered_def)
  also have "\<dots> = snd (scanFiles h cfg lines (NewTag rpm, rs))"
    by (simp only: scanFiles_dropFiltered scanFiles_filter)
  also have "\<dots> = scanRPM h cfg rpm rs"
    using CmdOk by (simp add: scanRPM_def getFilesFromRPM_def)
  finally show ?thesis .
qed

lemma scanRPMs_dropFiltered:
  "scanRPMs (dropFiltered h (Filter cfg)) cfg rpms rs = scanRPMs h cfg rpms rs"
  by (induction rpms arbitrary: rs) (simp_all add: scanRPM_dropFiltered)

lemma getAllRPMs_dropFiltered: "getAllRPMs (dropFiltered h flt) cfg = getAllRPMs h cfg"
  by (simp add: getAllRPMs_def dropFiltered_def)

lemma runNodeScan_dropFiltered:
  "runNodeScan (dropFiltered h (Filter cfg @ nodeScanFilters)) cfg = runNodeScan h cfg"
proof -
  let ?cfg1 = "cfg\<lparr>Filter := Filter cfg @ nodeScanFilters\<rparr>"
  have "scanRPMs (dropFiltered h (Filter ?cfg1)) ?cfg1 rpms rs = scanRPMs h ?cfg1 rpms rs" for rpms rs
    by (rule scanRPMs_dropFiltered)
  then show ?thesis
    by (simp add: runNodeScan_def Let_def getAllRPMs_dropFiltered)
qed

text \<open>The filter of the example host matches every path under one of its entries.\<close>

lemma ex_host_filters_under:
  assumes "dir \<in> set flt" and "pathUnder dir path"
  shows "isPathFiltered ex_host flt path"
proof -
  have "take (length dir) path = dir"
  proof (cases "path = dir")
    case True
    then show ?thesis by simp
  next
    case False
    then have "take (length dir + 1) path = dir @ ''/''"
      using assms(2) by (simp add: pathUnder_def)
    then have "take (length dir) (take (length dir + 1) path) = take (length dir) (dir @ ''/'')"
      by simp
    then show ?thesis by (simp add: min_def)
  qed
  then show ?thesis
    using assms(1) by (auto simp: ex_host_def list_ex_iff)
qed

subsection \<open>The claims\<close>

text \<open>
  C2. When \<^verbatim>\<open>rpm -ql --root R PKG\<close> exits non-zero for a package that \<^verbatim>\<open>rpm -qa\<close> listed,
  \<^verbatim>\<open>getFilesFromRPM\<close> returns the empty file list with the error, and the loop body appends
  exactly one result, which carries that error and the package's tag. The scan goes on: the
  one collection returned holds the results of the packages listed before it, then this
  single result, then the results of the packages listed after it.
\<close>

theorem rpm_ql_failure_is_per_rpm:
  assumes "rpm_qa h (NodeScan cfg) = CmdOk (before @ rpm # after)"
    and "rpm_ql h (NodeScan cfg) rpm = CmdFailed stderr err"
  shows "getFilesFromRPM h (fst (runNodeScan h cfg)) rpm = ([], Some (RpmQlError stderr err))
       \<and> Items (scanRPM h (fst (runNodeScan h cfg)) rpm rs)
           = Items rs @ [\<lparr>Tag = Some (NewTag rpm), Path = [], Error = Some (RpmQlError stderr err)\<rparr>]
       \<and> snd (runNodeScan h cfg)
           = [scanRPMs h (fst (runNodeScan h cfg)) after
                (Append (scanRPMs h (fst (runNodeScan h cfg)) before NewScanResults)
                   \<lparr>Tag = Some (NewTag rpm), Path = [], Error = Some (RpmQlError stderr err)\<rparr>)]
       \<and> snd (runNodeScan h cfg)
           = [\<lparr>Items =
                 Items (scanRPMs h (fst (runNodeScan h cfg)) before NewScanResults)
                 @ [\<lparr>Tag = Some (NewTag rpm), Path = [], Error = Some (RpmQlError stderr err)\<rparr>]
                 @ Items (scanRPMs h (fst (runNodeScan h cfg)) after NewScanResults)\<rparr>]
       \<and> snd (runNodeScan h cfg)
           = [\<lparr>Items =
                 concat (map (rpmResults h (fst (runNodeScan h cfg))) before)
                 @ [\<lparr>Tag = Some (NewTag rpm), Path = [], Error = Some (RpmQlError stderr err)\<rparr>]
                 @ concat (map (rpmResults h (fst (runNodeScan h cfg))) after)\<rparr>]"
proof -
  let ?cfg1 = "fst (runNodeScan h cfg)"
  let ?e = "\<lparr>Tag = Some (NewTag rpm), Path = [], Error = Some (RpmQlError stderr err)\<rparr>"
  have root: "NodeScan ?cfg1 = NodeScan cfg"
    by (simp add: fst_runNodeScan)
  have files: "getFilesFromRPM h ?cfg1 rpm = ([], Some (RpmQlError stderr err))"
    using assms(2) root by (simp add: getFilesFromRPM_def)
  have one: "scanRPM h ?cfg1 rpm rs' = Append rs' ?e" for rs'
    using files by (simp add: scanRPM_def SetError_def SetTag_def NewScanResult_def)
  have own: "rpmResults h ?cfg1 rpm = [?e]"
    using files by (simp add: rpmResults_def)
  have rpms: "fst (getAllRPMs h ?cfg1) = before @ rpm # after"
    using assms(1) root by (simp add: getAllRPMs_def)
  have all: "snd (runNodeScan h cfg) = [scanRPMs h ?cfg1 (before @ rpm # after) NewScanResults]"
    using rpms snd_runNodeScan [of h cfg] by simp
  then have run: "snd (runNodeScan h cfg)
      = [scanRPMs h ?cfg1 after (scanRPM h ?cfg1 rpm (scanRPMs h ?cfg1 before NewScanResults))]"
    by (simp add: scanRPMs_append)
  have decl: "snd (runNodeScan h cfg)
      = [\<lparr>Items = concat (map (rpmResults h ?cfg1) before) @ [?e]
                     @ concat (map (rpmResults h ?cfg1) after)\<rparr>]"
    using all own by (simp add: scanRPMs_eq NewScanResults_def)
  have parts: "Items (scanRPMs h ?cfg1 rpms' NewScanResults) = concat (map (rpmResults h ?cfg1) rpms')"
    for rpms'
    by (simp add: scanRPMs_eq NewScanResults_def)
  have code: "snd (runNodeScan h cfg)
      = [\<lparr>Items = Items (scanRPMs h ?cfg1 before NewScanResults) @ [?e]
                     @ Items (scanRPMs h ?cfg1 after NewScanResults)\<rparr>]"
    using decl by (simp only: parts)
  have fold: "snd (runNodeScan h cfg)
      = [scanRPMs h ?cfg1 after (Append (scanRPMs h ?cfg1 before NewScanResults) ?e)]"
    using run by (simp only: one)
  have item: "Items (scanRPM h ?cfg1 rpm rs) = Items rs @ [?e]"
    by (simp add: one Items_Append)
  from files item fold code decl show ?thesis
    by (intro conjI)
qed

theorem rpm_ql_failure_is_per_rpm_witness:
  "rpm_qa ex_host (NodeScan ex_cfg) = CmdOk ([''bash''] @ ''broken'' # [''kernel''])
   \<and> rpm_ql ex_host (NodeScan ex_cfg) ''broken''
       = CmdFailed ''package is not installed'' (ExternalError ''exit status 1'')
   \<and> getFilesFromRPM ex_host (fst (runNodeScan ex_host ex_cfg)) ''broken''
       = ([], Some (RpmQlError ''package is not installed'' (ExternalError ''exit status 1'')))
   \<and> Items (scanRPM ex_host (fst (runNodeScan ex_host ex_cfg)) ''broken'' NewScanResults)
       = [\<lparr>Tag = Some (NewTag ''broken''), Path = [],
           Error = Some (RpmQlError ''package is not installed'' (ExternalError ''exit status 1''))\<rparr>]
   \<and> snd (runNodeScan ex_host ex_cfg)
       = [\<lparr>Items =
             concat (map (rpmResults ex_host (fst (runNodeScan ex_host ex_cfg))) [''bash''])
             @ [\<lparr>Tag = Some (NewTag ''broken''), Path = [],
                 Error = Some (RpmQlError ''package is not installed'' (ExternalError ''exit status 1''))\<rparr>]
             @ concat (map (rpmResults ex_host (fst (runNodeScan ex_host ex_cfg))) [''kernel''])\<rparr>]
   \<and> map (\<lambda>r. (Path r, Error r)) (Items (hd (snd (runNodeScan ex_host ex_cfg))))
       = [(''/mnt/usr/bin/bash'', None),
          (''/proc/locked'', Some (ExternalError ''permission denied'')),
          (''/mnt/usr/bin/odd'', Some (ExternalError ''read error'')),
          ([], Some (RpmQlError ''package is not installed'' (ExternalError ''exit status 1''))),
          (''/mnt/boot/vmlinuz'', None),
          (''/mnt/usr/bin/bash'', None)]"
proof -
  have a: "rpm_qa ex_host (NodeScan ex_cfg) = CmdOk ([''bash''] @ ''broken'' # [''kernel''])"
    by (simp add: ex_host_def)
  have b: "rpm_ql ex_host (NodeScan ex_cfg) ''broken''
       = CmdFailed ''package is not installed'' (ExternalError ''exit status 1'')"
    by (simp add: ex_host_def)
  have bash: "map (\<lambda>r. (Path r, Error r)) (rpmResults ex_host (fst (runNodeScan ex_host ex_cfg)) ''bash'')
       = [(''/mnt/usr/bin/bash'', None),
          (''/proc/locked'', Some (ExternalError ''permission denied'')),
          (''/mnt/usr/bin/odd'', Some (ExternalError ''read error''))]"
    by code_simp
  have kernel: "map (\<lambda>r. (Path r, Error r)) (rpmResults ex_host (fst (runNodeScan ex_host ex_cfg)) ''kernel'')
       = [(''/mnt/boot/vmlinuz'', None), (''/mnt/usr/bin/bash'', None)]"
    by code_simp
  note t = rpm_ql_failure_is_per_rpm [OF a b, of NewScanResults]
  have files: "getFilesFromRPM ex_host (fst (runNodeScan ex_host ex_cfg)) ''broken''
       = ([], Some (RpmQlError ''package is not installed'' (ExternalError ''exit status 1'')))"
    using t by (rule conjunct1)
  have item: "Items (scanRPM ex_host (fst (runNodeScan ex_host ex_cfg)) ''broken'' NewScanResults)
       = [\<lparr>Tag = Some (NewTag ''broken''), Path = [],
           Error = Some (RpmQlError ''package is not installed'' (ExternalError ''exit status 1''))\<rparr>]"
    using t [THEN conjunct2, THEN conjunct1] by (simp add: NewScanResults_def)
  have whole: "snd (runNodeScan ex_host ex_cfg)
       = [\<lparr>Items =
             concat (map (rpmResults ex_host (fst (runNodeScan ex_host ex_cfg))) [''bash''])
             @ [\<lparr>Tag = Some (NewTag ''broken''), Path = [],
                 Error = Some (RpmQlError ''package is not installed'' (ExternalError ''exit status 1''))\<rparr>]
             @ concat (map (rpmResults ex_host (fst (runNodeScan ex_host ex_cfg))) [''kernel''])\<rparr>]"
    using t [THEN conjunct2, THEN conjunct2, THEN conjunct2, THEN conjunct2] .
  have listed: "map (\<lambda>r. (Path r, Error r)) (Items (hd (snd (runNodeScan ex_host ex_cfg))))
       = [(''/mnt/usr/bin/bash'', None),
          (''/proc/locked'', Some (ExternalError ''permission denied'')),
          (''/mnt/usr/bin/odd'', Some (ExternalError ''read error'')),
          ([], Some (RpmQlError ''package is not installed'' (ExternalError ''exit status 1''))),
          (''/mnt/boot/vmlinuz'', None),
          (''/mnt/usr/bin/bash'', None)]"
    by (simp add: whole bash kernel)
  from a b files item whole listed show ?thesis
    by (intro conjI)
qed



text \<open>
  C5. A path that the filter of the running scan matches leaves the loop's state as it
  is: no result is appended for it, whatever its kind. The filter of the running scan is
  the configured one followed by \<open>/lib/modules\<close>, \<open>/usr/lib/firmware\<close>, \<open>/usr/lib/grub\<close>
  and \<open>/usr/lib/.build-id\<close>; so whenever \<^verbatim>\<open>isPathFiltered\<close> matches every path under an
  entry of its list, no path under one of these directories or under a configured entry
  gets a result. The whole scan returns what it returns on a host whose packages own no
  filtered path at all.
\<close>

theorem node_scan_honours_filter:
  "(isPathFiltered h (Filter (fst (runNodeScan h cfg))) path
      \<longrightarrow> scanFile h (fst (runNodeScan h cfg)) path st = st)
   \<and> ((\<forall>flt d p. d \<in> set flt \<and> pathUnder d p \<longrightarrow> isPathFiltered h flt p)
        \<and> dir \<in> set (Filter cfg @ nodeScanFilters) \<and> pathUnder dir path
      \<longrightarrow> scanFile h (fst (runNodeScan h cfg)) path st = st)
   \<and> runNodeScan (dropFiltered h (Filter (fst (runNodeScan h cfg)))) cfg = runNodeScan h cfg"
proof -
  have cfg1: "Filter (fst (runNodeScan h cfg)) = Filter cfg @ nodeScanFilters"
    by (simp add: fst_runNodeScan)
  have a: "isPathFiltered h (Filter (fst (runNodeScan h cfg))) path
            \<longrightarrow> scanFile h (fst (runNodeScan h cfg)) path st = st"
    by (simp add: scanFile_filtered)
  have b: "(\<forall>flt d p. d \<in> set flt \<and> pathUnder d p \<longrightarrow> isPathFiltered h flt p)
        \<and> dir \<in> set (Filter cfg @ nodeScanFilters) \<and> pathUnder dir path
      \<longrightarrow> scanFile h (fst (runNodeScan h cfg)) path st = st"
  proof
    assume h: "(\<forall>flt d p. d \<in> set flt \<and> pathUnder d p \<longrightarrow> isPathFiltered h flt p)
        \<and> dir \<in> set (Filter cfg @ nodeScanFilters) \<and> pathUnder dir path"
    then have "isPathFiltered h (Filter cfg @ nodeScanFilters) path"
      by blast
    then show "scanFile h (fst (runNodeScan h cfg)) path st = st"
      using cfg1 by (simp add: scanFile_filtered)
  qed
  have c: "runNodeScan (dropFiltered h (Filter (fst (runNodeScan h cfg)))) cfg = runNodeScan h cfg"
    by (simp only: cfg1 runNodeScan_dropFiltered)
  from a b c show ?thesis by blast
qed

theorem node_scan_honours_filter_witness:
  "isPathFiltered ex_host (Filter (fst (runNodeScan ex_host ex_cfg))) ''/opt/skip/tool''
   \<and> scanFile ex_host (fst (runNodeScan ex_host ex_cfg)) ''/opt/skip/tool'' (NewTag ''bash'', NewScanResults)
       = (NewTag ''bash'', NewScanResults)
   \<and> ''/lib/modules'' \<in> set (Filter ex_cfg @ nodeScanFilters)
   \<and> pathUnder ''/lib/modules'' ''/lib/modules/6.1/ext4.ko''
   \<and> scanFile ex_host (fst (runNodeScan ex_host ex_cfg)) ''/lib/modules/6.1/ext4.ko'' (NewTag ''kernel'', NewScanResults)
       = (NewTag ''kernel'', NewScanResults)
   \<and> runNodeScan (dropFiltered ex_host (Filter (fst (runNodeScan ex_host ex_cfg)))) ex_cfg
       = runNodeScan ex_host ex_cfg"
proof -
  have f: "isPathFiltered ex_host (Filter (fst (runNodeScan ex_host ex_cfg))) ''/opt/skip/tool''"
    by (simp add: fst_runNodeScan ex_host_def ex_cfg_def)
  have u: "\<forall>flt d p. d \<in> set flt \<and> pathUnder d p \<longrightarrow> isPathFiltered ex_host flt p"
    using ex_host_filters_under by blast
  have m: "''/lib/modules'' \<in> set (Filter ex_cfg @ nodeScanFilters)"
    by (simp add: nodeScanFilters_def)
  have p: "pathUnder ''/lib/modules'' ''/lib/modules/6.1/ext4.ko''"
    by (simp add: pathUnder_def)
  show ?thesis
    using f u m p
      node_scan_honours_filter [of ex_host ex_cfg "''/opt/skip/tool''" "(NewTag ''bash'', NewScanResults)"
        "''/lib/modules''"]
      node_scan_honours_filter [of ex_host ex_cfg "''/lib/modules/6.1/ext4.ko''" "(NewTag ''kernel'', NewScanResults)"
        "''/lib/modules''"]
    by blast
qed

text \<open>
  C7 does not hold as stated: \<^verbatim>\<open>runNodeScan\<close> assigns to \<^verbatim>\<open>cfg.Filter\<close>, so the
  configuration after the scan differs from the one before it.
\<close>

theorem node_scan_modifies_filter_counterexample:
  "Filter (fst (runNodeScan ex_host ex_cfg)) \<noteq> Filter ex_cfg"
  by (simp add: fst_runNodeScan nodeScanFilters_def)

text \<open>
  C7, as the code has it. A node scan changes one field of the configuration: it appends
  its four directories to \<open>Filter\<close>, after the entries already there, and leaves every
  other field as it was.
\<close>

theorem node_scan_changes_filter_only:
  "fst (runNodeScan h cfg)
     = cfg\<lparr>Filter := Filter cfg @ [''/lib/modules'', ''/usr/lib/firmware'', ''/usr/lib/grub'', ''/usr/lib/.build-id'']\<rparr>"
  by (simp add: fst_runNodeScan nodeScanFilters_def)

text \<open>
  C10. If \<^verbatim>\<open>rpm -qa --root R\<close> exits non-zero, \<^verbatim>\<open>getAllRPMs\<close> returns the empty list with
  an error, \<^verbatim>\<open>runNodeScan\<close> drops that error, loops over no package and returns exactly
  one collection, which has no entry (so no result carries the error).
\<close>

theorem rpm_qa_failure_discarded:
  assumes "rpm_qa h (NodeScan cfg) = CmdFailed stderr err"
  shows "getAllRPMs h (cfg\<lparr>Filter := Filter cfg @ nodeScanFilters\<rparr>) = ([], Some (RpmQaError stderr err))
       \<and> snd (runNodeScan h cfg) = [\<lparr>Items = []\<rparr>]"
  using assms by (simp add: runNodeScan_def getAllRPMs_def NewScanResults_def)

theorem rpm_qa_failure_discarded_witness:
  "rpm_qa ex_host_no_db (NodeScan ex_cfg)
     = CmdFailed ''cannot open Packages database'' (ExternalError ''exit status 1'')
   \<and> getAllRPMs ex_host_no_db (ex_cfg\<lparr>Filter := Filter ex_cfg @ nodeScanFilters\<rparr>)
     = ([], Some (RpmQaError ''cannot open Packages database'' (ExternalError ''exit status 1'')))
   \<and> snd (runNodeScan ex_host_no_db ex_cfg) = [\<lparr>Items = []\<rparr>]"
proof -
  have h: "rpm_qa ex_host_no_db (NodeScan ex_cfg)
     = CmdFailed ''cannot open Packages database'' (ExternalError ''exit status 1'')"
    by (simp add: ex_host_no_db_def)
  show ?thesis
    using h rpm_qa_failure_discarded [OF h] by simp
qed

section \<open>Properties of the driver\<close>

subsection \<open>Auxiliary facts\<close>

text \<open>\<^verbatim>\<open>PersistentPreRunE\<close> leaves \<open>results\<close> alone and copies the flag variables.\<close>

lemma PersistentPreRunE_results:
  "PersistentPreRunE d fl st = Returns (e, st1) \<Longrightarrow> results st1 = results st"
  by (auto simp: PersistentPreRunE_def Let_def split: outcome.splits prod.splits option.splits if_splits)

lemma PersistentPreRunE_flags:
  assumes "PersistentPreRunE d fl st = Returns (None, st1)"
  shows "Limit (config st1) = limit fl" and "Parallelism (config st1) = parallelism fl"
    and "OutputFormat (config st1) = outputFormat fl" and "TimeLimit (config st1) = timeLimit fl"
  using assms
  by (auto simp: PersistentPreRunE_def Let_def
      split: outcome.splits prod.splits option.splits if_splits)

lemma PersistentPostRunE_iff:
  "PersistentPostRunE d st \<noteq> None
     \<longleftrightarrow> IsFailed d (results st) \<or> (IsWarnings d (results st) \<and> FailOnWarnings (config st))"
  by (simp add: PersistentPostRunE_def)

lemma execute_post:
  "PersistentPreRunE d fl st = Returns (None, st1) \<Longrightarrow> runE st1 = Returns (None, st2)
   \<Longrightarrow> execute d fl None None runE st = Returns (PersistentPostRunE d st2, st2)"
  by (simp add: execute_def)

lemma spec_IsFailed_iff:
  "spec_IsFailed runs \<longleftrightarrow> (\<exists>rs\<in>set runs. \<exists>r\<in>set (Items rs). Status r = Failure)"
  by (simp add: spec_IsFailed_def list_ex_iff)

lemma spec_IsWarnings_iff:
  "spec_IsWarnings runs \<longleftrightarrow> (\<exists>rs\<in>set runs. \<exists>r\<in>set (Items rs). Status r = Warning)"
  by (simp add: spec_IsWarnings_def list_ex_iff)

text \<open>Loading the configuration does not depend on the payload scan.\<close>

lemma getConfigForVersion_RunPayloadScan:
  "getConfigForVersion (d\<lparr>RunPayloadScan := scan\<rparr>) fl cf = getConfigForVersion d fl cf"
  by (simp add: getConfigForVersion_def
        cong: if_cong sum.case_cong prod.case_cong)

lemma getConfig_RunPayloadScan:
  "getConfig (d\<lparr>RunPayloadScan := scan\<rparr>) fl cf = getConfig d fl cf"
  by (simp add: getConfig_def getConfigForVersion_RunPayloadScan Let_def
        cong: if_cong sum.case_cong prod.case_cong)

lemma PersistentPreRunE_RunPayloadScan:
  "PersistentPreRunE (d\<lparr>RunPayloadScan := scan\<rparr>) fl st = PersistentPreRunE d fl st"
  by (simp add: PersistentPreRunE_def getConfig_RunPayloadScan Let_def
        cong: if_cong option.case_cong prod.case_cong outcome.case_cong)

lemma scanPayload_RunE_neither:
  "arg_url a = None \<Longrightarrow> arg_file a = None \<Longrightarrow>
   scanPayload_RunE d fl a st
     = Returns (Some UrlOrFileRequired, st\<lparr>config := (config st)\<lparr>FromURL := [], FromFile := []\<rparr>\<rparr>)"
  by (simp add: scanPayload_RunE_def GetString_def flagVar_def)

text \<open>The example inputs, evaluated.\<close>

lemma ex_PersistentPreRunE:
  "PersistentPreRunE ex_deps (parseFlags no_args) (main_vars [] () ()) = Returns (None, ex_pre)"
  by (simp add: PersistentPreRunE_def getConfig_def getConfigForVersion_def ex_deps_def
        parseFlags_def no_args_def flagVar_def defaultConfigFile_def Hour_def
        main_vars_def ex_pre_def Let_def)

lemma ex_scanNode_RunE:
  "scanNode_RunE ex_deps ex_node_args ex_pre = Returns (None, ex_node_done)"
  by (simp add: scanNode_RunE_def ex_deps_def ex_node_args_def ex_node_done_def
        GetBool_def GetString_def flagVar_def)

lemma ex_dependencies: "ValidateApplicationDependencies ex_deps applicationDeps = None"
  by (simp add: ex_deps_def)

subsection \<open>The claims\<close>

text \<open>
  C1. The post-run step of \<^verbatim>\<open>scan\<close> returns an error exactly when \<^verbatim>\<open>IsFailed(results)\<close>
  holds, or \<^verbatim>\<open>IsWarnings(results)\<close> holds and \<open>FailOnWarnings\<close> is set. It is the last step
  of every subcommand whose \<^verbatim>\<open>RunE\<close> returns nil, and its error is the error of the run.
  With \<open>IsFailed\<close> and \<open>IsWarnings\<close> as the spec defines them, the run fails exactly when
  some result has the status failure, or some result has the status warning and
  \<open>FailOnWarnings\<close> is set; when every result is a success or skipped, it does not fail.
\<close>

theorem post_run_reports_failure:
  "(PersistentPostRunE d st \<noteq> None
      \<longleftrightarrow> IsFailed d (results st) \<or> (IsWarnings d (results st) \<and> FailOnWarnings (config st)))
   \<and> (PersistentPreRunE d fl st0 = Returns (None, st1) \<and> runE st1 = Returns (None, st)
        \<longrightarrow> execute d fl None None runE st0 = Returns (PersistentPostRunE d st, st))
   \<and> (IsFailed d = spec_IsFailed \<and> IsWarnings d = spec_IsWarnings
        \<longrightarrow> (PersistentPostRunE d st \<noteq> None
              \<longleftrightarrow> (\<exists>rs\<in>set (results st). \<exists>r\<in>set (Items rs). Status r = Failure)
                  \<or> ((\<exists>rs\<in>set (results st). \<exists>r\<in>set (Items rs). Status r = Warning)
                      \<and> FailOnWarnings (config st))))
   \<and> (IsFailed d = spec_IsFailed \<and> IsWarnings d = spec_IsWarnings
        \<and> (\<forall>rs\<in>set (results st). \<forall>r\<in>set (Items rs). Status r = Success \<or> Status r = Skipped)
        \<longrightarrow> PersistentPostRunE d st = None)"
proof -
  have a: "PersistentPostRunE d st \<noteq> None
      \<longleftrightarrow> IsFailed d (results st) \<or> (IsWarnings d (results st) \<and> FailOnWarnings (config st))"
    by (rule PersistentPostRunE_iff)
  have b: "PersistentPreRunE d fl st0 = Returns (None, st1) \<and> runE st1 = Returns (None, st)
        \<longrightarrow> execute d fl None None runE st0 = Returns (PersistentPostRunE d st, st)"
    by (simp add: execute_post)
  have c: "IsFailed d = spec_IsFailed \<and> IsWarnings d = spec_IsWarnings
        \<longrightarrow> (PersistentPostRunE d st \<noteq> None
              \<longleftrightarrow> (\<exists>rs\<in>set (results st). \<exists>r\<in>set (Items rs). Status r = Failure)
                  \<or> ((\<exists>rs\<in>set (results st). \<exists>r\<in>set (Items rs). Status r = Warning)
                      \<and> FailOnWarnings (config st)))"
    using a by (simp add: spec_IsFailed_iff spec_IsWarnings_iff)
  have d: "IsFailed d = spec_IsFailed \<and> IsWarnings d = spec_IsWarnings
        \<and> (\<forall>rs\<in>set (results st). \<forall>r\<in>set (Items rs). Status r = Success \<or> Status r = Skipped)
        \<longrightarrow> PersistentPostRunE d st = None"
  proof
    assume h: "IsFailed d = spec_IsFailed \<and> IsWarnings d = spec_IsWarnings
        \<and> (\<forall>rs\<in>set (results st). \<forall>r\<in>set (Items rs). Status r = Success \<or> Status r = Skipped)"
    then have "\<not> spec_IsFailed (results st)" and "\<not> spec_IsWarnings (results st)"
      by (fastforce simp: spec_IsFailed_iff spec_IsWarnings_iff)+
    with h show "PersistentPostRunE d st = None"
      by (simp add: PersistentPostRunE_def)
  qed
  from a b c d show ?thesis by blast
qed

theorem post_run_reports_failure_witness:
  "execute ex_deps (parseFlags no_args) None None (scanNode_RunE ex_deps ex_node_args) (main_vars [] () ())
     = Returns (None, ex_node_done)
   \<and> PersistentPostRunE ex_deps ex_node_done = None
   \<and> PersistentPostRunE ex_deps ex_payload_done = None
   \<and> PersistentPostRunE ex_deps (ex_payload_done\<lparr>config := (config ex_payload_done)\<lparr>FailOnWarnings := True\<rparr>\<rparr>) \<noteq> None"
proof -
  have i: "IsFailed ex_deps = spec_IsFailed \<and> IsWarnings ex_deps = spec_IsWarnings"
    by (simp add: ex_deps_def)
  have ok: "\<forall>rs\<in>set (results ex_node_done). \<forall>r\<in>set (Items rs). Status r = Success \<or> Status r = Skipped"
    by (simp add: ex_node_done_def)
  have none: "PersistentPostRunE ex_deps ex_node_done = None"
    using i ok post_run_reports_failure [of ex_deps ex_node_done] by blast
  have run: "execute ex_deps (parseFlags no_args) None None (scanNode_RunE ex_deps ex_node_args) (main_vars [] () ())
     = Returns (PersistentPostRunE ex_deps ex_node_done, ex_node_done)"
    using ex_PersistentPreRunE ex_scanNode_RunE
      post_run_reports_failure [of ex_deps ex_node_done "parseFlags no_args" "main_vars [] () ()" ex_pre
        "scanNode_RunE ex_deps ex_node_args"]
    by blast
  have w0: "\<not> (\<exists>rs\<in>set (results ex_payload_done). \<exists>r\<in>set (Items rs). Status r = Failure)"
    by (simp add: ex_payload_done_def)
  have w1: "\<not> FailOnWarnings (config ex_payload_done)"
    by (simp add: ex_payload_done_def ex_pre_def main_vars_def)
  have warn_off: "PersistentPostRunE ex_deps ex_payload_done = None"
    using i w0 w1 post_run_reports_failure [of ex_deps ex_payload_done] by blast
  let ?st = "ex_payload_done\<lparr>config := (config ex_payload_done)\<lparr>FailOnWarnings := True\<rparr>\<rparr>"
  have w2: "(\<exists>rs\<in>set (results ?st). \<exists>r\<in>set (Items rs). Status r = Warning) \<and> FailOnWarnings (config ?st)"
    by (simp add: ex_payload_done_def)
  have warn_on: "PersistentPostRunE ex_deps ?st \<noteq> None"
    using i w2 post_run_reports_failure [of ex_deps ?st] by blast
  show ?thesis
    using none run warn_off warn_on by simp
qed

text \<open>
  C3. Under \<^verbatim>\<open>payload\<close>, with the earlier hooks passed: when both \<^verbatim>\<open>--url\<close> and
  \<^verbatim>\<open>--file\<close> are given the command is refused by the flag group check, before
  \<^verbatim>\<open>RunE\<close>; when neither is given \<^verbatim>\<open>RunE\<close> returns the error "either -u, --url or -f,
  --file option is required". In both cases the outcome is the same whatever the payload
  scan would do, no run returns without an error, and \<open>results\<close> stays as it was: no scan
  runs. When exactly one is given, with a non-empty value, \<^verbatim>\<open>RunE\<close> runs the payload scan
  and returns nil.
\<close>

theorem payload_url_file_exclusive:
  "(arg_url a \<noteq> None \<and> arg_file a \<noteq> None
      \<and> PersistentPreRunE d (parseFlags sa) st = Returns (None, st1)
      \<and> ValidateApplicationDependencies d applicationDeps = None
      \<longrightarrow> scan_payload d sa a st
            = Returns (Some (FlagGroupMutuallyExclusive [''url'', ''file'']), st1))
   \<and> (arg_url a = None \<and> arg_file a = None
      \<and> PersistentPreRunE d (parseFlags sa) st = Returns (None, st1)
      \<and> ValidateApplicationDependencies d applicationDeps = None
      \<longrightarrow> scan_payload d sa a st
            = Returns (Some UrlOrFileRequired,
                       st1\<lparr>config := (config st1)\<lparr>FromURL := [], FromFile := []\<rparr>\<rparr>))
   \<and> (arg_url a \<noteq> None \<and> arg_file a \<noteq> None \<or> arg_url a = None \<and> arg_file a = None
      \<longrightarrow> scan_payload (d\<lparr>RunPayloadScan := scan\<rparr>) sa a st = scan_payload d sa a st
          \<and> (\<forall>e st'. scan_payload d sa a st = Returns (e, st')
                \<longrightarrow> e \<noteq> None \<and> results st' = results st))
   \<and> ((arg_url a = Some u \<and> arg_file a = None \<or> arg_url a = None \<and> arg_file a = Some u) \<and> u \<noteq> []
      \<longrightarrow> scanPayload_RunE d fl a st
            = (let c = (config st)\<lparr>FromURL := GetString (arg_url a),
                                    FromFile := GetString (arg_file a),
                                    PrintExceptions := printExceptions fl,
                                    UseRPMScan := GetBool (arg_payload_rpm_scan a)\<rparr>
               in Returns (None, st\<lparr>config := fst (RunPayloadScan d c),
                                     results := snd (RunPayloadScan d c)\<rparr>)))"
proof -
  let ?fl = "parseFlags sa"
  have both: "scan_payload d sa a st
            = Returns (Some (FlagGroupMutuallyExclusive [''url'', ''file'']), st1)"
    if "arg_url a \<noteq> None" "arg_file a \<noteq> None"
      "PersistentPreRunE d ?fl st = Returns (None, st1)"
      "ValidateApplicationDependencies d applicationDeps = None"
    using that by (simp add: scan_payload_def execute_def mutuallyExclusive_def)
  have neither: "scan_payload d sa a st
            = Returns (Some UrlOrFileRequired,
                       st1\<lparr>config := (config st1)\<lparr>FromURL := [], FromFile := []\<rparr>\<rparr>)"
    if "arg_url a = None" "arg_file a = None"
      "PersistentPreRunE d ?fl st = Returns (None, st1)"
      "ValidateApplicationDependencies d applicationDeps = None"
    using that
    by (simp add: scan_payload_def execute_def mutuallyExclusive_def scanPayload_RunE_neither)
  have indep: "scan_payload (d\<lparr>RunPayloadScan := scan\<rparr>) sa a st = scan_payload d sa a st"
    if "arg_url a \<noteq> None \<and> arg_file a \<noteq> None \<or> arg_url a = None \<and> arg_file a = None"
  proof (cases "arg_url a")
    case None
    then have "arg_file a = None" using that by auto
    with None show ?thesis
      by (simp add: scan_payload_def execute_def mutuallyExclusive_def PersistentPreRunE_RunPayloadScan
            scanPayload_RunE_neither PersistentPostRunE_def
          split: outcome.splits prod.splits option.splits)
  next
    case (Some x)
    then have "arg_file a \<noteq> None" using that by auto
    with Some show ?thesis
      by (simp add: scan_payload_def execute_def mutuallyExclusive_def PersistentPreRunE_RunPayloadScan
          split: outcome.splits prod.splits option.splits)
  qed
  have noscan: "e \<noteq> None \<and> results st' = results st"
    if eq: "arg_url a \<noteq> None \<and> arg_file a \<noteq> None \<or> arg_url a = None \<and> arg_file a = None"
      and run: "scan_payload d sa a st = Returns (e, st')" for e st'
    using that
    apply (cases "arg_url a"; cases "arg_file a")
       apply (auto simp: scan_payload_def execute_def mutuallyExclusive_def scanPayload_RunE_neither
             split: outcome.splits prod.splits option.splits
             dest: PersistentPreRunE_results)
      apply metis+
    done
  have one: "scanPayload_RunE d fl a st
            = (let c = (config st)\<lparr>FromURL := GetString (arg_url a),
                                    FromFile := GetString (arg_file a),
                                    PrintExceptions := printExceptions fl,
                                    UseRPMScan := GetBool (arg_payload_rpm_scan a)\<rparr>
               in Returns (None, st\<lparr>config := fst (RunPayloadScan d c),
                                     results := snd (RunPayloadScan d c)\<rparr>))"
    if "(arg_url a = Some u \<and> arg_file a = None \<or> arg_url a = None \<and> arg_file a = Some u) \<and> u \<noteq> []"
    using that
    by (auto simp: scanPayload_RunE_def GetString_def flagVar_def Let_def case_prod_beta)
  show ?thesis
    using both neither indep noscan one by blast
qed

theorem payload_url_file_exclusive_witness:
  "scan_payload ex_deps no_args ex_both (main_vars [] () ())
     = Returns (Some (FlagGroupMutuallyExclusive [''url'', ''file'']), ex_pre)
   \<and> scan_payload ex_deps no_args ex_neither (main_vars [] () ())
     = Returns (Some UrlOrFileRequired, ex_pre\<lparr>config := (config ex_pre)\<lparr>FromURL := [], FromFile := []\<rparr>\<rparr>)
   \<and> scan_payload (ex_deps\<lparr>RunPayloadScan := (\<lambda>c. (c, []))\<rparr>) no_args ex_both (main_vars [] () ())
     = scan_payload ex_deps no_args ex_both (main_vars [] () ())
   \<and> scanPayload_RunE ex_deps (parseFlags no_args) ex_url ex_pre
     = (let c = (config ex_pre)\<lparr>FromURL := GetString (arg_url ex_url),
                                  FromFile := GetString (arg_file ex_url),
                                  PrintExceptions := printExceptions (parseFlags no_args),
                                  UseRPMScan := GetBool (arg_payload_rpm_scan ex_url)\<rparr>
        in Returns (None, ex_pre\<lparr>config := fst (RunPayloadScan ex_deps c),
                                 results := snd (RunPayloadScan ex_deps c)\<rparr>))"
proof -
  have both: "arg_url ex_both \<noteq> None \<and> arg_file ex_both \<noteq> None"
    by (simp add: ex_both_def)
  have neither: "arg_url ex_neither = None \<and> arg_file ex_neither = None"
    by (simp add: ex_neither_def)
  have one: "(arg_url ex_url = Some ''quay.io/release:4.14'' \<and> arg_file ex_url = None
               \<or> arg_url ex_url = None \<and> arg_file ex_url = Some ''quay.io/release:4.14'')
             \<and> ''quay.io/release:4.14'' \<noteq> []"
    by (simp add: ex_url_def)
  note t_both = payload_url_file_exclusive [where a = ex_both and d = ex_deps and sa = no_args
        and st = "main_vars [] () ()" and ?st1.0 = ex_pre and scan = "\<lambda>c. (c, [])"]
  note t_neither = payload_url_file_exclusive [where a = ex_neither and d = ex_deps and sa = no_args
        and st = "main_vars [] () ()" and ?st1.0 = ex_pre]
  note t_one = payload_url_file_exclusive [where a = ex_url and d = ex_deps and fl = "parseFlags no_args"
        and st = ex_pre and u = "''quay.io/release:4.14''"]
  have c1: "scan_payload ex_deps no_args ex_both (main_vars [] () ())
     = Returns (Some (FlagGroupMutuallyExclusive [''url'', ''file'']), ex_pre)"
    using t_both [THEN conjunct1] both ex_PersistentPreRunE ex_dependencies by simp
  have c2: "scan_payload ex_deps no_args ex_neither (main_vars [] () ())
     = Returns (Some UrlOrFileRequired, ex_pre\<lparr>config := (config ex_pre)\<lparr>FromURL := [], FromFile := []\<rparr>\<rparr>)"
    using t_neither [THEN conjunct2, THEN conjunct1] neither ex_PersistentPreRunE ex_dependencies
    by simp
  have c3: "scan_payload (ex_deps\<lparr>RunPayloadScan := (\<lambda>c. (c, []))\<rparr>) no_args ex_both (main_vars [] () ())
     = scan_payload ex_deps no_args ex_both (main_vars [] () ())"
    using t_both [THEN conjunct2, THEN conjunct2, THEN conjunct1] both by simp
  have c4: "scanPayload_RunE ex_deps (parseFlags no_args) ex_url ex_pre
     = (let c = (config ex_pre)\<lparr>FromURL := GetString (arg_url ex_url),
                                  FromFile := GetString (arg_file ex_url),
                                  PrintExceptions := printExceptions (parseFlags no_args),
                                  UseRPMScan := GetBool (arg_payload_rpm_scan ex_url)\<rparr>
        in Returns (None, ex_pre\<lparr>config := fst (RunPayloadScan ex_deps c),
                                 results := snd (RunPayloadScan ex_deps c)\<rparr>))"
    using t_one [THEN conjunct2, THEN conjunct2, THEN conjunct2] one by (rule mp)
  from c1 c2 c3 c4 show ?thesis by (intro conjI)
qed

text \<open>
  C6. When the configuration file (the one given with \<^verbatim>\<open>--config\<close>, or \<open>config.toml\<close>) is
  decoded without error and keys are left undecoded, \<^verbatim>\<open>getConfig\<close> returns an error that
  holds these keys, \<^verbatim>\<open>PersistentPreRunE\<close> returns it, and the command ends with it whatever
  its \<^verbatim>\<open>RunE\<close> is: \<^verbatim>\<open>RunE\<close> is not called, and \<open>results\<close> stays as it was.
\<close>

theorem unknown_config_keys_fail:
  "DecodeFile d (if configFile fl = [] then defaultConfigFile else configFile fl)
       (ConfigFile (config st)) = (cf1, Inr un)
   \<and> un \<noteq> []
   \<longrightarrow> getConfig d fl (ConfigFile (config st)) = Returns (cf1, Some (UnknownKeys un))
       \<and> PersistentPreRunE d fl st
           = Returns (Some (UnknownKeys un), st\<lparr>config := (config st)\<lparr>ConfigFile := cf1\<rparr>\<rparr>)
       \<and> execute d fl preRunE flagCheck runE st
           = Returns (Some (UnknownKeys un), st\<lparr>config := (config st)\<lparr>ConfigFile := cf1\<rparr>\<rparr>)"
proof
  assume h: "DecodeFile d (if configFile fl = [] then defaultConfigFile else configFile fl)
       (ConfigFile (config st)) = (cf1, Inr un) \<and> un \<noteq> []"
  then have g: "getConfig d fl (ConfigFile (config st)) = Returns (cf1, Some (UnknownKeys un))"
    by (simp add: getConfig_def Let_def)
  then have p: "PersistentPreRunE d fl st
           = Returns (Some (UnknownKeys un), st\<lparr>config := (config st)\<lparr>ConfigFile := cf1\<rparr>\<rparr>)"
    by (simp add: PersistentPreRunE_def)
  then have "execute d fl preRunE flagCheck runE st
           = Returns (Some (UnknownKeys un), st\<lparr>config := (config st)\<lparr>ConfigFile := cf1\<rparr>\<rparr>)"
    by (simp add: execute_def)
  with g p show "getConfig d fl (ConfigFile (config st)) = Returns (cf1, Some (UnknownKeys un))
       \<and> PersistentPreRunE d fl st
           = Returns (Some (UnknownKeys un), st\<lparr>config := (config st)\<lparr>ConfigFile := cf1\<rparr>\<rparr>)
       \<and> execute d fl preRunE flagCheck runE st
           = Returns (Some (UnknownKeys un), st\<lparr>config := (config st)\<lparr>ConfigFile := cf1\<rparr>\<rparr>)"
    by simp
qed

theorem unknown_config_keys_fail_witness:
  "DecodeFile ex_deps
       (if configFile (parseFlags (no_args\<lparr>arg_config := Some ''typo.toml''\<rparr>)) = [] then defaultConfigFile
        else configFile (parseFlags (no_args\<lparr>arg_config := Some ''typo.toml''\<rparr>)))
       (ConfigFile (config (main_vars [] () ())))
     = ([''filter_files''], Inr [''fliter_dirs''])
   \<and> [''fliter_dirs''] \<noteq> []
   \<and> getConfig ex_deps (parseFlags (no_args\<lparr>arg_config := Some ''typo.toml''\<rparr>))
         (ConfigFile (config (main_vars [] () ())))
     = Returns ([''filter_files''], Some (UnknownKeys [''fliter_dirs'']))
   \<and> execute ex_deps (parseFlags (no_args\<lparr>arg_config := Some ''typo.toml''\<rparr>)) None None
         (scanNode_RunE ex_deps ex_node_args) (main_vars [] () ())
     = Returns (Some (UnknownKeys [''fliter_dirs'']),
                (main_vars [] () ())\<lparr>config := (config (main_vars [] () ()))\<lparr>ConfigFile := [''filter_files'']\<rparr>\<rparr>)"
proof -
  let ?fl = "parseFlags (no_args\<lparr>arg_config := Some ''typo.toml''\<rparr>)"
  have h: "DecodeFile ex_deps (if configFile ?fl = [] then defaultConfigFile else configFile ?fl)
       (ConfigFile (config (main_vars [] () ())))
     = ([''filter_files''], Inr [''fliter_dirs'']) \<and> [''fliter_dirs''] \<noteq> []"
    by (simp add: ex_deps_def parseFlags_def flagVar_def main_vars_def)
  show ?thesis
    using h unknown_config_keys_fail [of ex_deps ?fl "main_vars [] () ()" "[''filter_files'']"
        "[''fliter_dirs'']" None None "scanNode_RunE ex_deps ex_node_args"]
    by blast
qed

text \<open>
  C8. A flag that the command line does not give leaves its default in its variable:
  \<open>-1\<close> for \<^verbatim>\<open>--limit\<close>, \<open>5\<close> for \<^verbatim>\<open>--parallelism\<close>, \<open>table\<close> for \<^verbatim>\<open>--output-format\<close> and
  one hour (3600 times 1000000000 nanoseconds) for \<^verbatim>\<open>--time-limit\<close>. Whenever
  \<^verbatim>\<open>PersistentPreRunE\<close> returns nil, which is when a scan goes on to run, these are the
  values of \<open>Limit\<close>, \<open>Parallelism\<close>, \<open>OutputFormat\<close> and \<open>TimeLimit\<close> in the
  configuration.
\<close>

theorem scan_flag_defaults:
  "(arg_limit sa = None \<longrightarrow> limit (parseFlags sa) = - 1)
   \<and> (arg_parallelism sa = None \<longrightarrow> parallelism (parseFlags sa) = 5)
   \<and> (arg_output_format sa = None \<longrightarrow> outputFormat (parseFlags sa) = ''table'')
   \<and> (arg_time_limit sa = None \<longrightarrow> timeLimit (parseFlags sa) = 3600 * 1000000000)
   \<and> (PersistentPreRunE d (parseFlags sa) st = Returns (None, st1)
        \<longrightarrow> (arg_limit sa = None \<longrightarrow> Limit (config st1) = - 1)
          \<and> (arg_parallelism sa = None \<longrightarrow> Parallelism (config st1) = 5)
          \<and> (arg_output_format sa = None \<longrightarrow> OutputFormat (config st1) = ''table'')
          \<and> (arg_time_limit sa = None \<longrightarrow> TimeLimit (config st1) = 3600 * 1000000000))"
proof -
  have f: "(arg_limit sa = None \<longrightarrow> limit (parseFlags sa) = - 1)
   \<and> (arg_parallelism sa = None \<longrightarrow> parallelism (parseFlags sa) = 5)
   \<and> (arg_output_format sa = None \<longrightarrow> outputFormat (parseFlags sa) = ''table'')
   \<and> (arg_time_limit sa = None \<longrightarrow> timeLimit (parseFlags sa) = 3600 * 1000000000)"
    by (simp add: parseFlags_def flagVar_def Hour_def)
  then show ?thesis
    using PersistentPreRunE_flags [of d "parseFlags sa" st st1] by simp
qed

theorem scan_flag_defaults_witness:
  "arg_limit no_args = None \<and> arg_parallelism no_args = None
   \<and> arg_output_format no_args = None \<and> arg_time_limit no_args = None
   \<and> PersistentPreRunE ex_deps (parseFlags no_args) (main_vars [] () ()) = Returns (None, ex_pre)
   \<and> limit (parseFlags no_args) = - 1 \<and> parallelism (parseFlags no_args) = 5
   \<and> outputFormat (parseFlags no_args) = ''table''
   \<and> timeLimit (parseFlags no_args) = 3600 * 1000000000
   \<and> Limit (config ex_pre) = - 1 \<and> Parallelism (config ex_pre) = 5
   \<and> OutputFormat (config ex_pre) = ''table''
   \<and> TimeLimit (config ex_pre) = 3600 * 1000000000"
proof -
  have a: "arg_limit no_args = None \<and> arg_parallelism no_args = None
     \<and> arg_output_format no_args = None \<and> arg_time_limit no_args = None"
    by (simp add: no_args_def)
  show ?thesis
    using a ex_PersistentPreRunE
      scan_flag_defaults [of no_args ex_deps "main_vars [] () ()" ex_pre]
    by blast
qed

text \<open>
  C9. In \<^verbatim>\<open>binary\<close>, started from the variables as \<^verbatim>\<open>main\<close> declares them: whenever both
  flags are given with non-empty values and the result of \<^verbatim>\<open>ScanBinary\<close> is neither skipped
  nor dropped by an RPM ignore, \<open>results\<close> has length 0 when control reaches
  \<^verbatim>\<open>results[0] = newResults\<close>, and the assignment panics.
\<close>

theorem binary_store_panics:
  assumes pre: "PersistentPreRunE d (parseFlags sa) (main_vars cf0 ri0 ei0) = Returns (None, st1)"
    and deps: "ValidateApplicationDependencies d applicationDeps = None"
    and top: "arg_topdir a = Some t" "t \<noteq> []"
    and inner: "arg_innerpath a = Some p" "p \<noteq> []"
    and noskip: "\<not> Skip (ScanBinary d t p (RPMIgnores (config st1)) (ErrIgnores (config st1)))"
    and noignore:
      "IsSuccess (ScanBinary d t p (RPMIgnores (config st1)) (ErrIgnores (config st1)))
       \<or> RPM (ScanBinary d t p (RPMIgnores (config st1)) (ErrIgnores (config st1))) = []
       \<or> \<not> IgnoreFileByRpm d
             ((config st1)\<lparr>FromTopDir := t, FromInnerPath := p, UseRPMScan := False\<rparr>) p
             (RPM (ScanBinary d t p (RPMIgnores (config st1)) (ErrIgnores (config st1))))"
  shows "length (results st1) = 0
       \<and> gosyms_RunE d a st1 = Panics ''index out of range [0] with length 0''
       \<and> scan_binary d sa a (main_vars cf0 ri0 ei0) = Panics ''index out of range [0] with length 0''"
proof -
  have len: "length (results st1) = 0"
    using PersistentPreRunE_results [OF pre] by (simp add: main_vars_def)
  have run: "gosyms_RunE d a st1 = Panics ''index out of range [0] with length 0''"
    using top inner noskip noignore len
    by (auto simp: gosyms_RunE_def Let_def GetString_def flagVar_def)
  have "scan_binary d sa a (main_vars cf0 ri0 ei0) = Panics ''index out of range [0] with length 0''"
    using pre deps run by (simp add: scan_binary_def execute_def)
  with len run show ?thesis by simp
qed

theorem binary_store_panics_witness:
  "length (results ex_pre) = 0
   \<and> gosyms_RunE ex_deps ex_binary_args ex_pre = Panics ''index out of range [0] with length 0''
   \<and> scan_binary ex_deps no_args ex_binary_args (main_vars [] () ())
       = Panics ''index out of range [0] with length 0''"
proof -
  have top: "arg_topdir ex_binary_args = Some ''/mnt''" "''/mnt'' \<noteq> []"
    by (simp_all add: ex_binary_args_def)
  have inner: "arg_innerpath ex_binary_args = Some ''/usr/bin/ls''" "''/usr/bin/ls'' \<noteq> []"
    by (simp_all add: ex_binary_args_def)
  have noskip: "\<not> Skip (ScanBinary ex_deps ''/mnt'' ''/usr/bin/ls'' (RPMIgnores (config ex_pre))
                          (ErrIgnores (config ex_pre)))"
    by (simp add: ex_deps_def)
  have noignore:
    "IsSuccess (ScanBinary ex_deps ''/mnt'' ''/usr/bin/ls'' (RPMIgnores (config ex_pre)) (ErrIgnores (config ex_pre)))
     \<or> RPM (ScanBinary ex_deps ''/mnt'' ''/usr/bin/ls'' (RPMIgnores (config ex_pre)) (ErrIgnores (config ex_pre))) = []
     \<or> \<not> IgnoreFileByRpm ex_deps
           ((config ex_pre)\<lparr>FromTopDir := ''/mnt'', FromInnerPath := ''/usr/bin/ls'', UseRPMScan := False\<rparr>)
           ''/usr/bin/ls''
           (RPM (ScanBinary ex_deps ''/mnt'' ''/usr/bin/ls'' (RPMIgnores (config ex_pre)) (ErrIgnores (config ex_pre))))"
    by (simp add: ex_deps_def IsSuccess_def)
  show ?thesis
    by (rule binary_store_panics [OF ex_PersistentPreRunE ex_dependencies top inner noskip noignore])
qed

end
